theory Spec2Isabelle
  imports Complex_Main "HOL-Library.AList"
begin

section \<open>The WhatsApp bot of \<^verbatim>\<open>whatsapp-bot/index.js\<close>\<close>

text \<open>
  A shallow embedding of class \<^verbatim>\<open>WhatsAppBot\<close>. JavaScript strings are lists of code
  units; every string literal of the source has code units below 256, so a code unit is a
  \<^typ>\<open>char\<close> (the accented letters of the source are written with their code, as in
  \<open>CHR 0xC3\<close>). A handler runs from its first statement to its last with no other
  handler interleaved at its \<^verbatim>\<open>await\<close>s. The logger has no effect on the bot; of a call
  of the logger the model keeps the evaluation of its argument, which throws when a
  template literal cannot convert one of its values to a string.
\<close>

subsection \<open>JavaScript values, exceptions\<close>

text \<open>
  The values that JSON carries, and \<^verbatim>\<open>undefined\<close>. A number is a finite one (JSON has no
  \<^verbatim>\<open>NaN\<close>), held as the rational it denotes.
\<close>

datatype jsval =
    JUndefined
  | JNull
  | JBool bool
  | JNum rat
  | JStr string
  | JArr "jsval list"
  | JObj "(string \<times> jsval) list"

text \<open>
  What a \<^verbatim>\<open>throw\<close> carries: the two built-in errors the code can meet, an
  \<^verbatim>\<open>Error(message)\<close> of the code's own, and the rejection of a remote call.
\<close>

datatype exn = TypeError | RangeError | JsError string | Rejected string

text \<open>
  The library functions and the environment variable the code reads but does not define.
\<close>

record runtime =
  hmac_sha256_hex :: "string \<Rightarrow> string \<Rightarrow> string"
  JSON_stringify :: "jsval \<Rightarrow> string"
  Number_toString :: "rat \<Rightarrow> string"
  WHATSAPP_VERIFY_TOKEN :: "string option"

text \<open>Truthiness, as \<^verbatim>\<open>!x\<close> and \<^verbatim>\<open>x || y\<close> test it.\<close>

fun truthy :: "jsval \<Rightarrow> bool" where
  "truthy JUndefined = False"
| "truthy JNull = False"
| "truthy (JBool b) = b"
| "truthy (JNum n) = (n \<noteq> 0)"
| "truthy (JStr str) = (str \<noteq> [])"
| "truthy (JArr xs) = True"
| "truthy (JObj kvs) = True"

definition js_or :: "jsval \<Rightarrow> jsval \<Rightarrow> jsval" where
  "js_or a b = (if truthy a then a else b)"

text \<open>
  Reading a property \<^verbatim>\<open>v.k\<close>: a TypeError on \<^verbatim>\<open>undefined\<close> and \<^verbatim>\<open>null\<close>, the field
  or \<^verbatim>\<open>undefined\<close> on an object. The names the code reads (\<^verbatim>\<open>response\<close>,
  \<^verbatim>\<open>context\<close>, \<^verbatim>\<open>id\<close>, \<^verbatim>\<open>_serialized\<close>, \<^verbatim>\<open>text\<close>, \<^verbatim>\<open>buttons\<close>,
  \<^verbatim>\<open>sections\<close>) are no built-in property of a primitive or an array, which therefore
  give \<^verbatim>\<open>undefined\<close>.
\<close>

fun js_get :: "jsval \<Rightarrow> string \<Rightarrow> exn + jsval" where
  "js_get JUndefined k = Inl TypeError"
| "js_get JNull k = Inl TypeError"
| "js_get (JObj kvs) k = Inr (case map_of kvs k of None \<Rightarrow> JUndefined | Some v \<Rightarrow> v)"
| "js_get v k = Inr JUndefined"

fun join_comma :: "string list \<Rightarrow> string" where
  "join_comma [] = []"
| "join_comma [x] = x"
| "join_comma (x # y # ys) = x @ '','' @ join_comma (y # ys)"

text \<open>
  The conversion to a string that a template literal applies. An object is converted by
  its \<^verbatim>\<open>toString\<close>: the one of \<^verbatim>\<open>Object.prototype\<close> gives \<^verbatim>\<open>[object Object]\<close>; an own
  property of that name, which in a value of JSON is never a function, hides it, and the
  conversion throws a TypeError (the inherited \<^verbatim>\<open>valueOf\<close> gives the object back, an own one
  is no function either). An array is converted by \<^verbatim>\<open>join\<close>: its elements in turn, with
  \<^verbatim>\<open>undefined\<close> and \<^verbatim>\<open>null\<close> as the empty string, and the first element that throws
  ends it.
\<close>

fun js_toString :: "runtime \<Rightarrow> jsval \<Rightarrow> exn + string"
  and js_elements :: "runtime \<Rightarrow> jsval list \<Rightarrow> exn + string list" where
  "js_toString rt JUndefined = Inr ''undefined''"
| "js_toString rt JNull = Inr ''null''"
| "js_toString rt (JBool b) = Inr (if b then ''true'' else ''false'')"
| "js_toString rt (JNum n) = Inr (Number_toString rt n)"
| "js_toString rt (JStr str) = Inr str"
| "js_toString rt (JArr xs) =
     (case js_elements rt xs of Inl e \<Rightarrow> Inl e | Inr strs \<Rightarrow> Inr (join_comma strs))"
| "js_toString rt (JObj kvs) =
     (case map_of kvs ''toString'' of
        Some own \<Rightarrow> Inl TypeError
      | None \<Rightarrow> Inr ''[object Object]'')"
| "js_elements rt [] = Inr []"
| "js_elements rt (x # xs) =
     (case (if x = JUndefined \<or> x = JNull then Inr [] else js_toString rt x) of
        Inl e \<Rightarrow> Inl e
      | Inr str \<Rightarrow>
          (case js_elements rt xs of Inl e \<Rightarrow> Inl e | Inr strs \<Rightarrow> Inr (str # strs)))"

text \<open>The values whose conversion to a string does not throw.\<close>

fun stringable :: "jsval \<Rightarrow> bool" where
  "stringable (JObj kvs) = (map_of kvs ''toString'' = None)"
| "stringable (JArr xs) = list_all stringable xs"
| "stringable v = True"

subsection \<open>The signature verifier\<close>

text \<open>
  \<^verbatim>\<open>Buffer.from(string)\<close> encodes in UTF-8: one byte for a code unit below 128, two bytes
  for the others below 256.
\<close>

definition utf8 :: "char \<Rightarrow> char list" where
  "utf8 c =
     (let n = (of_char c :: nat)
      in if n < 128 then [c] else [char_of (192 + n div 64), char_of (128 + n mod 64)])"

definition Buffer_from :: "string \<Rightarrow> char list" where
  "Buffer_from str = concat (map utf8 str)"

text \<open>
  \<^verbatim>\<open>crypto.timingSafeEqual\<close> throws a RangeError when its two buffers differ in byte
  length.
\<close>

definition timingSafeEqual :: "char list \<Rightarrow> char list \<Rightarrow> exn + bool" where
  "timingSafeEqual a b = (if length a \<noteq> length b then Inl RangeError else Inr (a = b))"

text \<open>
  \<^verbatim>\<open>crypto.createHmac\<close> throws a TypeError when the key is \<^verbatim>\<open>undefined\<close>, and
  \<^verbatim>\<open>update\<close> when its data is (\<^verbatim>\<open>JSON.stringify(undefined)\<close> is \<^verbatim>\<open>undefined\<close>).
\<close>

definition expectedSignature :: "runtime \<Rightarrow> jsval \<Rightarrow> exn + string" where
  "expectedSignature rt body =
     (case WHATSAPP_VERIFY_TOKEN rt of
        None \<Rightarrow> Inl TypeError
      | Some secret \<Rightarrow>
          if body = JUndefined then Inl TypeError
          else Inr (''sha256='' @ hmac_sha256_hex rt secret (JSON_stringify rt body)))"

definition verifySignature :: "runtime \<Rightarrow> jsval \<Rightarrow> string option \<Rightarrow> exn + bool" where
  "verifySignature rt body signature =
     (case signature of
        None \<Rightarrow> Inr False
      | Some sig \<Rightarrow>
          if sig = [] then Inr False
          else (case expectedSignature rt body of
                  Inl e \<Rightarrow> Inl e
                | Inr expected \<Rightarrow> timingSafeEqual (Buffer_from sig) (Buffer_from expected)))"

subsection \<open>The message normaliser\<close>

text \<open>
  An inbound message, with the fields the code reads. The sender and the type are strings;
  a field the provider left out is \<^verbatim>\<open>undefined\<close>.
\<close>

record message =
  m_from :: string
  m_type :: string
  body :: jsval
  caption :: jsval
  lat :: jsval
  lng :: jsval

definition sin_descripcion :: string where
  "sin_descripcion = ''Sin descripci'' @ [CHR 0xC3, CHR 0xB3] @ ''n''"

text \<open>A template literal with one value, and with two: the values are converted in order.\<close>

definition template1 :: "string \<Rightarrow> exn + string \<Rightarrow> string \<Rightarrow> exn + jsval" where
  "template1 before v after =
     (case v of Inl e \<Rightarrow> Inl e | Inr str \<Rightarrow> Inr (JStr (before @ str @ after)))"

definition template2 ::
  "string \<Rightarrow> exn + string \<Rightarrow> string \<Rightarrow> exn + string \<Rightarrow> string \<Rightarrow> exn + jsval" where
  "template2 before v between w after =
     (case v of
        Inl e \<Rightarrow> Inl e
      | Inr str \<Rightarrow>
          (case w of
             Inl e \<Rightarrow> Inl e
           | Inr str' \<Rightarrow> Inr (JStr (before @ str @ between @ str' @ after))))"

definition extractMessageContent :: "runtime \<Rightarrow> message \<Rightarrow> exn + jsval" where
  "extractMessageContent rt message =
     (if m_type message = ''text'' then Inr (body message)
      else if m_type message = ''image'' then
        template1 ''[Imagen: ''
          (js_toString rt (js_or (caption message) (JStr sin_descripcion))) '']''
      else if m_type message = ''video'' then
        template1 ''[Video: ''
          (js_toString rt (js_or (caption message) (JStr sin_descripcion))) '']''
      else if m_type message = ''audio'' then Inr (JStr ''[Audio]'')
      else if m_type message = ''document'' then
        template1 ''[Documento: ''
          (js_toString rt (js_or (body message) (JStr ''Sin nombre''))) '']''
      else if m_type message = ''location'' then
        template2 (''[Ubicaci'' @ [CHR 0xC3, CHR 0xB3] @ ''n: '') (js_toString rt (lat message))
          '', '' (js_toString rt (lng message)) '']''
      else Inr (JStr ''[Mensaje no soportado]''))"

subsection \<open>The bot's state\<close>

record session =
  phone :: string
  conversation_id :: string
  last_activity :: int
  s_context :: jsval

text \<open>The requests that leave the process, in the order they are made.\<close>

datatype call =
    AgentPost jsval
  | ClientSend string jsval
  | GraphPost jsval

text \<open>
  \<^verbatim>\<open>this.sessions\<close> is a \<^verbatim>\<open>Map\<close>: its entries in insertion order, \<^verbatim>\<open>get\<close> as
  \<^const>\<open>map_of\<close>, \<^verbatim>\<open>set\<close> as \<^const>\<open>AList.update\<close> (replace in place or append),
  \<^verbatim>\<open>delete\<close> as \<^const>\<open>AList.delete\<close>. \<open>calls\<close> is no field of the class: it records
  the remote requests the bot has made.
\<close>

record bot =
  isReady :: bool
  sessions :: "(string \<times> session) list"
  calls :: "call list"

definition constructor :: bot where
  "constructor = \<lparr>isReady = False, sessions = [], calls = []\<rparr>"

text \<open>
  A session object is shared between the handler's variable and the \<^verbatim>\<open>Map\<close>: an
  assignment to one of its fields is an assignment to the entry under the key the handler
  got the object from.
\<close>

definition write_through :: "bot \<Rightarrow> string \<Rightarrow> session \<Rightarrow> bot" where
  "write_through st key s = st\<lparr>sessions := AList.update key s (sessions st)\<rparr>"

subsection \<open>The outbound dispatcher\<close>

definition is_digit :: "char \<Rightarrow> bool" where
  "is_digit c = (c \<in> set ''0123456789'')"

definition formatPhoneNumber :: "string \<Rightarrow> string" where
  "formatPhoneNumber ph =
     (let cleaned = filter is_digit ph;
          cleaned = (if take 3 cleaned \<noteq> ''506'' then ''506'' @ cleaned else cleaned)
      in cleaned @ ''@c.us'')"

text \<open>
  In the functions below \<open>net\<close> is what the awaited remote call gives, should the
  function come to make it: \<open>Inl\<close> a rejection, \<open>Inr\<close> the value it resolves to. A
  \<^verbatim>\<open>catch\<close> that logs and throws the error again leaves the result as it is.
\<close>

definition sendWhatsAppBusinessMessage ::
  "exn + jsval \<Rightarrow> bot \<Rightarrow> string \<Rightarrow> jsval \<Rightarrow> string \<Rightarrow> (exn + jsval) \<times> bot" where
  "sendWhatsAppBusinessMessage net st ph msg ty =
     (net, st\<lparr>calls := calls st @
        [GraphPost (JObj (AList.update ty msg
           [(''messaging_product'', JStr ''whatsapp''), (''to'', JStr ph), (''type'', JStr ty)]))]\<rparr>)"

text \<open>The callback of \<^verbatim>\<open>buttons.map\<close>; the first element that throws ends the loop.\<close>

fun map_buttons :: "jsval list \<Rightarrow> exn + jsval list" where
  "map_buttons [] = Inr []"
| "map_buttons (btn # rest) =
     (case js_get btn ''id'' of
        Inl e \<Rightarrow> Inl e
      | Inr bid \<Rightarrow>
          (case js_get btn ''text'' of
             Inl e \<Rightarrow> Inl e
           | Inr btext \<Rightarrow>
               (case map_buttons rest of
                  Inl e \<Rightarrow> Inl e
                | Inr out \<Rightarrow> Inr (JObj [(''id'', bid), (''body'', btext)] # out))))"

definition footer :: string where
  "footer = ''Shaymee - Tu tienda de confianza''"

definition sendButtonMessage ::
  "exn + jsval \<Rightarrow> bot \<Rightarrow> string \<Rightarrow> jsval \<Rightarrow> (exn + jsval) \<times> bot" where
  "sendButtonMessage net st ph messageData =
     (case js_get messageData ''text'' of
        Inl e \<Rightarrow> (Inl e, st)
      | Inr text \<Rightarrow>
          (case js_get messageData ''buttons'' of
             Inl e \<Rightarrow> (Inl e, st)
           | Inr (JArr buttons) \<Rightarrow>
               (case map_buttons buttons of
                  Inl e \<Rightarrow> (Inl e, st)
                | Inr mapped \<Rightarrow>
                    sendWhatsAppBusinessMessage net st ph
                      (JObj [(''text'', text), (''footer'', JStr footer), (''buttons'', JArr mapped)])
                      ''button'')
           | Inr other \<Rightarrow> (Inl TypeError, st)))"

definition sendListMessage ::
  "exn + jsval \<Rightarrow> bot \<Rightarrow> string \<Rightarrow> jsval \<Rightarrow> (exn + jsval) \<times> bot" where
  "sendListMessage net st ph messageData =
     (case js_get messageData ''text'' of
        Inl e \<Rightarrow> (Inl e, st)
      | Inr text \<Rightarrow>
          (case js_get messageData ''sections'' of
             Inl e \<Rightarrow> (Inl e, st)
           | Inr sections \<Rightarrow>
               sendWhatsAppBusinessMessage net st ph
                 (JObj [(''text'', text), (''footer'', JStr footer), (''sections'', sections)])
                 ''list''))"

record delivery_result =
  success :: bool
  message_id :: jsval

definition not_ready :: exn where
  "not_ready = JsError ''WhatsApp client not ready''"

text \<open>\<^verbatim>\<open>{ success: true, message_id: result.id._serialized }\<close>\<close>

definition delivered :: "jsval \<Rightarrow> exn + delivery_result" where
  "delivered result =
     (case js_get result ''id'' of
        Inl e \<Rightarrow> Inl e
      | Inr rid \<Rightarrow>
          (case js_get rid ''_serialized'' of
             Inl e \<Rightarrow> Inl e
           | Inr ser \<Rightarrow> Inr \<lparr>success = True, message_id = ser\<rparr>))"

text \<open>
  After the send and before the result is built, \<^verbatim>\<open>sendMessage\<close> logs a template literal
  with the phone number, a string, and the message, whose conversion may throw.
\<close>

definition sendMessage ::
  "runtime \<Rightarrow> exn + jsval \<Rightarrow> bot \<Rightarrow> string \<Rightarrow> jsval \<Rightarrow> string
     \<Rightarrow> (exn + delivery_result) \<times> bot" where
  "sendMessage rt net st ph msg ty =
     (if \<not> isReady st then (Inl not_ready, st)
      else
        (let formattedPhone = formatPhoneNumber ph;
             (result, st') =
               (if ty = ''button'' then sendButtonMessage net st formattedPhone msg
                else if ty = ''list'' then sendListMessage net st formattedPhone msg
                else (net, st\<lparr>calls := calls st @ [ClientSend formattedPhone msg]\<rparr>))
         in (case result of
               Inl e \<Rightarrow> (Inl e, st')
             | Inr res \<Rightarrow>
                 (case js_toString rt msg of
                    Inl e \<Rightarrow> (Inl e, st')
                  | Inr logged \<Rightarrow> (delivered res, st')))))"

subsection \<open>The reasoning client\<close>

text \<open>
  What the world gives during one run of the inbound handler: the two readings of the
  clock, the text \<^verbatim>\<open>generateConversationId\<close> builds from the clock and the random
  generator, and what each awaited remote call gives should the handler come to make it.
\<close>

record turn_io =
  created_at :: int
  id_suffix :: string
  touched_at :: int
  ai_result :: "exn + jsval"
  reply_send :: "exn + jsval"
  apology_send :: "exn + jsval"

definition generateConversationId :: "turn_io \<Rightarrow> string" where
  "generateConversationId io = ''conv_'' @ id_suffix io"

definition fallback_text :: string where
  "fallback_text =
     ''Lo siento, tuve un problema procesando tu mensaje. '' @ [CHR 0xC2, CHR 0xBF] @ ''Podr''
     @ [CHR 0xC3, CHR 0xAD] @ ''as intentarlo de nuevo?''"

text \<open>
  \<^verbatim>\<open>axios.post\<close> rejects on a transport error, on a response outside 2xx and on a
  timeout; otherwise \<open>ai_result\<close> is \<^verbatim>\<open>response.data\<close>.
\<close>

definition processWithAI ::
  "turn_io \<Rightarrow> bot \<Rightarrow> string \<Rightarrow> jsval \<Rightarrow> session \<Rightarrow> jsval \<times> bot" where
  "processWithAI io st ph msg sess =
     (let st' = st\<lparr>calls := calls st @
            [AgentPost (JObj [(''user_id'', JStr ph), (''message'', msg),
                              (''session_id'', JStr (conversation_id sess)),
                              (''context'', s_context sess)])]\<rparr>
      in (case ai_result io of
            Inr data \<Rightarrow> (data, st')
          | Inl error \<Rightarrow>
              (JObj [(''response'', JStr fallback_text), (''context'', s_context sess)], st')))"

subsection \<open>The inbound handler\<close>

definition try_catch ::
  "(exn + 'a) \<times> 's \<Rightarrow> (exn \<Rightarrow> 's \<Rightarrow> (exn + 'a) \<times> 's) \<Rightarrow> (exn + 'a) \<times> 's" where
  "try_catch r handler = (case r of (Inl e, st) \<Rightarrow> handler e st | (Inr v, st) \<Rightarrow> (Inr v, st))"

definition new_session :: "turn_io \<Rightarrow> string \<Rightarrow> session" where
  "new_session io ph =
     \<lparr>phone = ph, conversation_id = generateConversationId io, last_activity = created_at io,
      s_context = JObj []\<rparr>"

text \<open>
  \<^verbatim>\<open>// Get or create session\<close> and \<^verbatim>\<open>// Update session activity\<close>: the handler's
  session object and the bot with that object in its \<^verbatim>\<open>Map\<close>.
\<close>

definition resolve :: "turn_io \<Rightarrow> bot \<Rightarrow> string \<Rightarrow> session \<times> bot" where
  "resolve io st ph =
     (let (sess, st) =
            (case map_of (sessions st) ph of
               Some found \<Rightarrow> (found, st)
             | None \<Rightarrow>
                 (new_session io ph,
                  st\<lparr>sessions := AList.update ph (new_session io ph) (sessions st)\<rparr>));
          sess = sess\<lparr>last_activity := touched_at io\<rparr>
      in (sess, write_through st ph sess))"

text \<open>
  \<^verbatim>\<open>// Send response\<close> and then \<^verbatim>\<open>// Update session context\<close>, in the order of the
  source. The argument \<^verbatim>\<open>aiResponse.response\<close> is read before the call.
\<close>

definition respond ::
  "runtime \<Rightarrow> turn_io \<Rightarrow> bot \<Rightarrow> string \<Rightarrow> session \<Rightarrow> jsval \<Rightarrow> (exn + unit) \<times> bot" where
  "respond rt io st ph sess aiResponse =
     (case js_get aiResponse ''response'' of
        Inl e \<Rightarrow> (Inl e, st)
      | Inr response \<Rightarrow>
          (case sendMessage rt (reply_send io) st ph response ''text'' of
             (Inl e, st) \<Rightarrow> (Inl e, st)
           | (Inr sent, st) \<Rightarrow>
               (case js_get aiResponse ''context'' of
                  Inl e \<Rightarrow> (Inl e, st)
                | Inr returned \<Rightarrow>
                    (Inr (),
                     write_through st ph
                       (sess\<lparr>s_context := js_or returned (s_context sess)\<rparr>)))))"

text \<open>
  The \<^verbatim>\<open>try\<close> block of \<^verbatim>\<open>handleIncomingMessage\<close>. Before it fetches the session it
  normalises the message and logs a template literal with the phone number, a string, and
  the content: either may throw, and then the block has touched no session and made no
  request.
\<close>

definition handle_try :: "runtime \<Rightarrow> turn_io \<Rightarrow> bot \<Rightarrow> message \<Rightarrow> (exn + unit) \<times> bot" where
  "handle_try rt io st message =
     (let ph = m_from message
      in (case extractMessageContent rt message of
            Inl e \<Rightarrow> (Inl e, st)
          | Inr messageContent \<Rightarrow>
              (case js_toString rt messageContent of
                 Inl e \<Rightarrow> (Inl e, st)
               | Inr logged \<Rightarrow>
                   (let (sess, st) = resolve io st ph;
                        (aiResponse, st) = processWithAI io st ph messageContent sess
                    in respond rt io st ph sess aiResponse))))"

definition handleIncomingMessage ::
  "runtime \<Rightarrow> turn_io \<Rightarrow> bot \<Rightarrow> message \<Rightarrow> (exn + unit) \<times> bot" where
  "handleIncomingMessage rt io st message =
     try_catch (handle_try rt io st message)
       (\<lambda>error st.
          try_catch
            (case sendMessage rt (apology_send io) st (m_from message) (JStr fallback_text)
                    ''text'' of
               (Inl e, st) \<Rightarrow> (Inl e, st)
             | (Inr sent, st) \<Rightarrow> (Inr (), st))
            (\<lambda>sendError st. (Inr (), st)))"

subsection \<open>The sweep\<close>

definition maxAge :: int where
  "maxAge = 24 * 60 * 60 * 1000"

text \<open>
  The loop over \<^verbatim>\<open>this.sessions.entries()\<close>. A \<^verbatim>\<open>Map\<close> iterator that meets the deletion
  of the entry it stands on goes on to the next one, so the loop visits the entries the
  \<^verbatim>\<open>Map\<close> had when it began.
\<close>

fun cleanup_loop ::
  "int \<Rightarrow> (string \<times> session) list \<Rightarrow> (string \<times> session) list \<Rightarrow> (string \<times> session) list" where
  "cleanup_loop now [] store = store"
| "cleanup_loop now ((ph, sess) # rest) store =
     cleanup_loop now rest
       (if now - last_activity sess > maxAge then AList.delete ph store else store)"

definition cleanupSessions :: "int \<Rightarrow> bot \<Rightarrow> bot" where
  "cleanupSessions now st = st\<lparr>sessions := cleanup_loop now (sessions st) (sessions st)\<rparr>"

subsection \<open>The webhook middleware\<close>

record request =
  headers :: "(string \<times> string) list"
  req_body :: jsval

datatype response = Status nat string

text \<open>
  \<open>next\<close> is the rest of the route. An exception that leaves the middleware reaches
  neither \<^verbatim>\<open>next()\<close> nor the 401: the framework's error handler answers (with status
  500).
\<close>

definition webhook_middleware ::
  "runtime \<Rightarrow> request \<Rightarrow> (bot \<Rightarrow> (exn + response) \<times> bot) \<Rightarrow> bot \<Rightarrow> (exn + response) \<times> bot" where
  "webhook_middleware rt req next st =
     (case verifySignature rt (req_body req) (map_of (headers req) ''x-hub-signature-256'') of
        Inl e \<Rightarrow> (Inl e, st)
      | Inr ok \<Rightarrow> if ok then next st else (Inr (Status 401 ''Unauthorized''), st))"

subsection \<open>Runs of the bot\<close>

text \<open>
  The events the bot reacts to: an inbound message, the hourly timer, and the three
  events of the WhatsApp client that set \<^verbatim>\<open>isReady\<close>.
\<close>

datatype event =
    Inbound turn_io message
  | Timer int
  | Ready
  | AuthFailure
  | Disconnected

fun step :: "runtime \<Rightarrow> bot \<Rightarrow> event \<Rightarrow> bot" where
  "step rt st (Inbound io message) = snd (handleIncomingMessage rt io st message)"
| "step rt st (Timer now) = cleanupSessions now st"
| "step rt st Ready = st\<lparr>isReady := True\<rparr>"
| "step rt st AuthFailure = st\<lparr>isReady := False\<rparr>"
| "step rt st Disconnected = st\<lparr>isReady := False\<rparr>"

definition run :: "runtime \<Rightarrow> bot \<Rightarrow> event list \<Rightarrow> bot" where
  "run rt st evs = foldl (step rt) st evs"

definition lookup :: "bot \<Rightarrow> string \<Rightarrow> session option" where
  "lookup st ph = map_of (sessions st) ph"

definition new_calls :: "bot \<Rightarrow> bot \<Rightarrow> call list" where
  "new_calls st st' = drop (length (calls st)) (calls st')"

text \<open>A request to one of the two delivery transports.\<close>

fun is_delivery :: "call \<Rightarrow> bool" where
  "is_delivery (AgentPost req) = False"
| "is_delivery (ClientSend dest msg) = True"
| "is_delivery (GraphPost payload) = True"

text \<open>The context a session has when the handler has fetched or created it.\<close>

definition prior_context :: "bot \<Rightarrow> string \<Rightarrow> jsval" where
  "prior_context st ph = (case lookup st ph of None \<Rightarrow> JObj [] | Some s \<Rightarrow> s_context s)"

text \<open>
  The reply's \<^verbatim>\<open>sendMessage\<close> throws: the transport is not ready, the request is
  rejected, the log line after the send cannot convert the reply, or the result of the
  request has no \<^verbatim>\<open>id._serialized\<close> to read.
\<close>

definition reply_fails :: "runtime \<Rightarrow> bot \<Rightarrow> turn_io \<Rightarrow> jsval \<Rightarrow> bool" where
  "reply_fails rt st io reply =
     (\<not> isReady st \<or>
      (case reply_send io of
         Inl e \<Rightarrow> True
       | Inr res \<Rightarrow> isl (js_toString rt reply) \<or> isl (delivered res)))"

text \<open>
  The handler comes to its reasoning call: the message is normalised and the log line
  before the session is fetched converts the content.
\<close>

definition reaches_engine :: "runtime \<Rightarrow> message \<Rightarrow> bool" where
  "reaches_engine rt message =
     (case extractMessageContent rt message of
        Inl e \<Rightarrow> False
      | Inr content \<Rightarrow> \<not> isl (js_toString rt content))"

definition content_of :: "runtime \<Rightarrow> message \<Rightarrow> jsval" where
  "content_of rt message =
     (case extractMessageContent rt message of Inl e \<Rightarrow> JUndefined | Inr content \<Rightarrow> content)"

subsection \<open>Stages of a turn\<close>

text \<open>
  The bot when the handler, having come that far, has resolved the session and made the
  reasoning call.
\<close>

definition asked :: "runtime \<Rightarrow> turn_io \<Rightarrow> bot \<Rightarrow> message \<Rightarrow> bot" where
  "asked rt io st message =
     snd (processWithAI io (snd (resolve io st (m_from message))) (m_from message)
            (content_of rt message) (fst (resolve io st (m_from message))))"

text \<open>What \<^verbatim>\<open>processWithAI\<close> returns in that turn.\<close>

definition answer :: "turn_io \<Rightarrow> bot \<Rightarrow> message \<Rightarrow> jsval" where
  "answer io st message =
     (case ai_result io of
        Inr data \<Rightarrow> data
      | Inl error \<Rightarrow> JObj [(''response'', JStr fallback_text),
                           (''context'', prior_context st (m_from message))])"

text \<open>The \<^verbatim>\<open>switch\<close> of \<^verbatim>\<open>sendMessage\<close>.\<close>

definition transport ::
  "exn + jsval \<Rightarrow> bot \<Rightarrow> string \<Rightarrow> jsval \<Rightarrow> string \<Rightarrow> (exn + jsval) \<times> bot" where
  "transport net st ph msg ty =
     (if ty = ''button'' then sendButtonMessage net st (formatPhoneNumber ph) msg
      else if ty = ''list'' then sendListMessage net st (formatPhoneNumber ph) msg
      else (net, st\<lparr>calls := calls st @ [ClientSend (formatPhoneNumber ph) msg]\<rparr>))"

text \<open>
  A send either throws before its request, with the bot as it was, or makes the one
  request and gives what the request gives.
\<close>

definition one_request :: "exn + jsval \<Rightarrow> bot \<Rightarrow> (exn + jsval) \<times> bot \<Rightarrow> bool" where
  "one_request net st r =
     ((\<exists>e. r = (Inl e, st)) \<or>
      (fst r = net \<and> isReady (snd r) = isReady st \<and> sessions (snd r) = sessions st \<and>
       (\<exists>c. calls (snd r) = calls st @ [c])))"

text \<open>The test of the sweep.\<close>

definition stale :: "int \<Rightarrow> session \<Rightarrow> bool" where
  "stale now sess = (now - last_activity sess > maxAge)"

subsection \<open>Example inputs\<close>

text \<open>
  A runtime for the examples. None of them reaches the digest or the conversion of a
  number, which stand for the library's.
\<close>

definition rt_example :: runtime where
  "rt_example =
     \<lparr>hmac_sha256_hex = (\<lambda>key data. replicate 64 (CHR ''0'')),
      JSON_stringify = (\<lambda>v. ''{}''),
      Number_toString = (\<lambda>n. ''0''),
      WHATSAPP_VERIFY_TOKEN = Some ''secret''\<rparr>"

definition hola :: message where
  "hola =
     \<lparr>m_from = ''50688887777'', m_type = ''text'', body = JStr ''Hola'',
      caption = JUndefined, lat = JUndefined, lng = JUndefined\<rparr>"

definition sent_ok :: jsval where
  "sent_ok = JObj [(''id'', JObj [(''_serialized'', JStr ''true_50688887777@c.us_3EB0'')])]"

text \<open>A turn in which the engine answers with a new context and the reply is delivered.\<close>

definition io_example :: turn_io where
  "io_example =
     \<lparr>created_at = 1700000000000, id_suffix = ''1700000000000_k3j9x2m1q'',
      touched_at = 1700000000000,
      ai_result = Inr (JObj [(''response'', JStr ''Claro''),
                             (''context'', JObj [(''step'', JStr ''checkout'')])]),
      reply_send = Inr sent_ok, apology_send = Inr sent_ok\<rparr>"

text \<open>A ready bot with one session, whose context holds a cart.\<close>

definition cart_session :: session where
  "cart_session =
     \<lparr>phone = ''50688887777'', conversation_id = ''conv_1699999990000_a1b2c3d4e'',
      last_activity = 1699999990000, s_context = JObj [(''cart'', JStr ''shoes'')]\<rparr>"

definition st_cart :: bot where
  "st_cart = \<lparr>isReady = True, sessions = [(''50688887777'', cart_session)], calls = []\<rparr>"

section \<open>The signature verifier and the webhook middleware\<close>

lemma length_utf8_pos: "1 \<le> length (utf8 c)"
  by (simp add: utf8_def Let_def)

lemma length_Buffer_from_ge: "length str \<le> length (Buffer_from str)"
proof (induction str)
  case Nil
  then show ?case by (simp add: Buffer_from_def)
next
  case (Cons c cs)
  have "length (Buffer_from (c # cs)) = length (utf8 c) + length (Buffer_from cs)"
    by (simp add: Buffer_from_def)
  with Cons length_utf8_pos [of c] show ?case by simp
qed

lemma Buffer_from_abc: "Buffer_from ''abc'' = ''abc''"
  by (simp add: Buffer_from_def utf8_def)

text \<open>
  The expected signature is \<^verbatim>\<open>sha256=\<close> and the digest, seven bytes at least, so a
  three-byte header never has its length.
\<close>

lemma timingSafeEqual_abc:
  assumes "7 \<le> length expected"
  shows "timingSafeEqual (Buffer_from ''abc'') (Buffer_from expected) = Inl RangeError"
proof -
  have "7 \<le> length (Buffer_from expected)"
    using assms length_Buffer_from_ge [of expected] by linarith
  then show ?thesis
    by (simp add: timingSafeEqual_def Buffer_from_abc)
qed

lemma verifySignature_length_mismatch:
  assumes "sig \<noteq> []" "expectedSignature rt payload = Inr expected"
    "length (Buffer_from sig) \<noteq> length (Buffer_from expected)"
  shows "verifySignature rt payload (Some sig) = Inl RangeError"
  using assms by (simp add: verifySignature_def timingSafeEqual_def)

text \<open>
  C1. The verifier is to return false for a missing or malformed header and never to
  throw. It does so for a missing and for an empty header; on the header \<^verbatim>\<open>abc\<close>, whose
  length is not that of the expected signature, with the verify token set, it throws the
  RangeError of \<^verbatim>\<open>crypto.timingSafeEqual\<close>.
\<close>

theorem verifySignature_throws_on_short_header:
  "verifySignature (rt\<lparr>WHATSAPP_VERIFY_TOKEN := Some secret\<rparr>) (JObj []) (Some ''abc'')
     = Inl RangeError"
  by (simp add: verifySignature_def expectedSignature_def timingSafeEqual_abc)

lemma verifySignature_absent: "verifySignature rt payload None = Inr False"
  by (simp add: verifySignature_def)

text \<open>
  Whenever the verifier does not answer true, the rest of the route is not entered and the
  bot is as it was.
\<close>

lemma webhook_middleware_frame:
  "verifySignature rt (req_body req) (map_of (headers req) ''x-hub-signature-256'') \<noteq> Inr True
     \<Longrightarrow> snd (webhook_middleware rt req next st) = st"
  by (auto simp add: webhook_middleware_def split: sum.splits)

lemma webhook_middleware_absent:
  "map_of (headers req) ''x-hub-signature-256'' = None
     \<Longrightarrow> webhook_middleware rt req next st = (Inr (Status 401 ''Unauthorized''), st)"
  by (simp add: webhook_middleware_def verifySignature_absent)

text \<open>
  C6. A request whose signature header does not verify is to be answered with 401 and
  processed no further. For the header \<^verbatim>\<open>abc\<close> the middleware sends no 401: the
  RangeError of the verifier leaves it. The rest of the route is not entered and the bot
  is unchanged.
\<close>

theorem webhook_middleware_throws_on_short_header:
  "webhook_middleware (rt\<lparr>WHATSAPP_VERIFY_TOKEN := Some secret\<rparr>)
      \<lparr>headers = [(''x-hub-signature-256'', ''abc'')], req_body = JObj []\<rparr> next st
     = (Inl RangeError, st)"
  by (simp add: webhook_middleware_def verifySignature_def expectedSignature_def
      timingSafeEqual_abc)

section \<open>The message normaliser\<close>

lemma stringable_iff:
  "isl (js_toString rt v) \<longleftrightarrow> \<not> stringable v"
  "isl (js_elements rt xs) \<longleftrightarrow> \<not> list_all stringable xs"
  by (induction rt v and rt xs rule: js_toString_js_elements.induct)
     (auto split: sum.splits option.splits)

lemma js_toString_stringable:
  assumes "stringable v"
  obtains str where "js_toString rt v = Inr str"
  using assms stringable_iff(1) [of rt v] by (cases "js_toString rt v") auto

lemma stringable_js_or: "stringable a \<Longrightarrow> stringable b \<Longrightarrow> stringable (js_or a b)"
  by (simp add: js_or_def)

text \<open>What the conversion gives on each kind of value.\<close>

lemma js_toString_values:
  "js_toString rt JUndefined = Inr ''undefined''"
  "js_toString rt JNull = Inr ''null''"
  "js_toString rt (JBool False) = Inr ''false''"
  "js_toString rt (JNum n) = Inr (Number_toString rt n)"
  "js_toString rt (JStr str) = Inr str"
  "js_toString rt (JArr [JNum 1, JNull, JStr ''a'', JUndefined, JBool True])
     = Inr (Number_toString rt 1 @ '',,a,,true'')"
  "js_toString rt (JArr [JArr [JStr ''a'', JStr ''b''], JStr ''c'']) = Inr ''a,b,c''"
  "js_toString rt (JArr []) = Inr ''''"
  "js_toString rt (JObj [(''valueOf'', JNum 1)]) = Inr ''[object Object]''"
  "js_toString rt (JObj [(''toString'', JNum 1)]) = Inl TypeError"
  "js_toString rt (JArr [JStr ''a'', JObj [(''toString'', JNull)]]) = Inl TypeError"
  by simp_all

text \<open>
  C9, as stated, fails: the normaliser is no total function. For an image whose caption
  is the object \<^verbatim>\<open>{"toString": 1}\<close> the template literal throws a TypeError.
\<close>

theorem extractMessageContent_throws:
  "extractMessageContent rt_example
       (hola\<lparr>m_type := ''image'', caption := JObj [(''toString'', JNum 1)]\<rparr>)
     = Inl TypeError"
  by (simp add: extractMessageContent_def template1_def js_or_def hola_def)

text \<open>
  C9, amended. The normaliser gives a body and no kind (the type of the message is kept
  as it is). A text gives its body, audio gives \<^verbatim>\<open>[Audio]\<close> and every type that is not one
  of the six gives the fixed placeholder, whatever the payload. An image, a video and a
  document give their bracketed text with the caption or name, or with the default when
  that is absent or falsy; a location gives its two numbers (\<^verbatim>\<open>undefined\<close> for an absent
  one). Whenever the caption, the
  body, the latitude and the longitude can be converted to strings, the normaliser
  returns, and what it returns for a type other than text is a string.
\<close>

theorem extractMessageContent_bodies:
  "(m_type message = ''text'' \<longrightarrow> extractMessageContent rt message = Inr (body message))
   \<and> (m_type message = ''audio'' \<longrightarrow> extractMessageContent rt message = Inr (JStr ''[Audio]''))
   \<and> (m_type message \<notin> {''text'', ''image'', ''video'', ''audio'', ''document'', ''location''} \<longrightarrow>
        extractMessageContent rt message = Inr (JStr ''[Mensaje no soportado]''))
   \<and> (m_type message = ''image'' \<and> caption message = JStr c \<and> c \<noteq> [] \<longrightarrow>
        extractMessageContent rt message = Inr (JStr (''[Imagen: '' @ c @ '']'')))
   \<and> (m_type message = ''image'' \<and> \<not> truthy (caption message) \<longrightarrow>
        extractMessageContent rt message = Inr (JStr (''[Imagen: '' @ sin_descripcion @ '']'')))
   \<and> (m_type message = ''video'' \<and> caption message = JStr c \<and> c \<noteq> [] \<longrightarrow>
        extractMessageContent rt message = Inr (JStr (''[Video: '' @ c @ '']'')))
   \<and> (m_type message = ''video'' \<and> \<not> truthy (caption message) \<longrightarrow>
        extractMessageContent rt message = Inr (JStr (''[Video: '' @ sin_descripcion @ '']'')))
   \<and> (m_type message = ''document'' \<and> body message = JStr c \<and> c \<noteq> [] \<longrightarrow>
        extractMessageContent rt message = Inr (JStr (''[Documento: '' @ c @ '']'')))
   \<and> (m_type message = ''document'' \<and> \<not> truthy (body message) \<longrightarrow>
        extractMessageContent rt message = Inr (JStr ''[Documento: Sin nombre]''))
   \<and> (m_type message = ''location'' \<and> lat message = JNum a \<and> lng message = JNum b \<longrightarrow>
        extractMessageContent rt message =
          Inr (JStr (''[Ubicaci'' @ [CHR 0xC3, CHR 0xB3] @ ''n: '' @ Number_toString rt a @ '', ''
                     @ Number_toString rt b @ '']'')))
   \<and> (m_type message = ''location'' \<and> lat message = JUndefined \<and> lng message = JUndefined \<longrightarrow>
        extractMessageContent rt message =
          Inr (JStr (''[Ubicaci'' @ [CHR 0xC3, CHR 0xB3] @ ''n: undefined, undefined]'')))
   \<and> (stringable (caption message) \<and> stringable (body message) \<and> stringable (lat message)
        \<and> stringable (lng message) \<longrightarrow>
        (\<exists>v. extractMessageContent rt message = Inr v))
   \<and> (m_type message \<noteq> ''text'' \<longrightarrow>
        (\<forall>v. extractMessageContent rt message = Inr v \<longrightarrow> (\<exists>str. v = JStr str)))"
proof -
  have total: "\<exists>v. extractMessageContent rt message = Inr v"
    if s: "stringable (caption message) \<and> stringable (body message) \<and> stringable (lat message)
        \<and> stringable (lng message)"
  proof -
    obtain c where c: "js_toString rt (js_or (caption message) (JStr sin_descripcion)) = Inr c"
      using s by (meson js_toString_stringable stringable_js_or stringable.simps(7))
    obtain d where d: "js_toString rt (js_or (body message) (JStr ''Sin nombre'')) = Inr d"
      using s by (meson js_toString_stringable stringable_js_or stringable.simps(7))
    obtain x where x: "js_toString rt (lat message) = Inr x"
      using s by (meson js_toString_stringable)
    obtain y where y: "js_toString rt (lng message) = Inr y"
      using s by (meson js_toString_stringable)
    show ?thesis
      by (simp add: extractMessageContent_def template1_def template2_def c d x y)
  qed
  have strings: "\<forall>v. extractMessageContent rt message = Inr v \<longrightarrow> (\<exists>str. v = JStr str)"
    if "m_type message \<noteq> ''text''"
    using that
    by (auto simp add: extractMessageContent_def template1_def template2_def
        split: if_splits sum.splits)
  show ?thesis
    using total strings
    by (simp add: extractMessageContent_def template1_def template2_def js_or_def)
qed

theorem extractMessageContent_bodies_witness:
  "extractMessageContent rt_example hola = Inr (JStr ''Hola'')
   \<and> extractMessageContent rt_example (hola\<lparr>m_type := ''audio'', body := JUndefined\<rparr>)
       = Inr (JStr ''[Audio]'')
   \<and> extractMessageContent rt_example (hola\<lparr>m_type := ''sticker''\<rparr>)
       = Inr (JStr ''[Mensaje no soportado]'')
   \<and> extractMessageContent rt_example (hola\<lparr>m_type := ''image'', caption := JStr ''zapatos''\<rparr>)
       = Inr (JStr ''[Imagen: zapatos]'')
   \<and> extractMessageContent rt_example (hola\<lparr>m_type := ''video''\<rparr>)
       = Inr (JStr (''[Video: Sin descripci'' @ [CHR 0xC3, CHR 0xB3] @ ''n]''))
   \<and> extractMessageContent rt_example (hola\<lparr>m_type := ''document'', body := JStr ''''\<rparr>)
       = Inr (JStr ''[Documento: Sin nombre]'')
   \<and> extractMessageContent rt_example (hola\<lparr>m_type := ''location'', lat := JNum 0, lng := JNum 0\<rparr>)
       = Inr (JStr (''[Ubicaci'' @ [CHR 0xC3, CHR 0xB3] @ ''n: 0, 0]''))
   \<and> extractMessageContent rt_example (hola\<lparr>m_type := ''location''\<rparr>)
       = Inr (JStr (''[Ubicaci'' @ [CHR 0xC3, CHR 0xB3] @ ''n: undefined, undefined]''))"
  using extractMessageContent_bodies [where message = hola and rt = rt_example]
    extractMessageContent_bodies
      [where message = "hola\<lparr>m_type := ''audio'', body := JUndefined\<rparr>" and rt = rt_example]
    extractMessageContent_bodies [where message = "hola\<lparr>m_type := ''sticker''\<rparr>" and rt = rt_example]
    extractMessageContent_bodies
      [where message = "hola\<lparr>m_type := ''image'', caption := JStr ''zapatos''\<rparr>"
         and rt = rt_example and c = "''zapatos''"]
    extractMessageContent_bodies [where message = "hola\<lparr>m_type := ''video''\<rparr>" and rt = rt_example]
    extractMessageContent_bodies
      [where message = "hola\<lparr>m_type := ''document'', body := JStr ''''\<rparr>" and rt = rt_example]
    extractMessageContent_bodies
      [where message = "hola\<lparr>m_type := ''location'', lat := JNum 0, lng := JNum 0\<rparr>"
         and rt = rt_example and a = 0 and b = 0]
    extractMessageContent_bodies [where message = "hola\<lparr>m_type := ''location''\<rparr>" and rt = rt_example]
  by (simp add: hola_def sin_descripcion_def rt_example_def)

section \<open>The outbound dispatcher\<close>

lemma sendMessage_text:
  "sendMessage rt net st ph msg ''text'' =
     (if \<not> isReady st then (Inl not_ready, st)
      else ((case net of
               Inl e \<Rightarrow> Inl e
             | Inr res \<Rightarrow> (case js_toString rt msg of Inl e \<Rightarrow> Inl e | Inr logged \<Rightarrow> delivered res)),
            st\<lparr>calls := calls st @ [ClientSend (formatPhoneNumber ph) msg]\<rparr>))"
  by (simp add: sendMessage_def Let_def split: sum.splits)

lemma one_request_business:
  "one_request net st (sendWhatsAppBusinessMessage net st ph msg ty)"
  by (simp add: one_request_def sendWhatsAppBusinessMessage_def)

lemma one_request_throw: "one_request net st (Inl e, st)"
  by (simp add: one_request_def)

lemma one_request_button: "one_request net st (sendButtonMessage net st ph messageData)"
  by (simp add: sendButtonMessage_def one_request_business one_request_throw
      split: sum.splits jsval.splits)

lemma one_request_list: "one_request net st (sendListMessage net st ph messageData)"
  by (simp add: sendListMessage_def one_request_business one_request_throw split: sum.splits)

lemma one_request_client:
  "one_request net st (net, st\<lparr>calls := calls st @ [ClientSend dest msg]\<rparr>)"
  by (simp add: one_request_def)

lemma one_request_transport: "one_request net st (transport net st ph msg ty)"
  by (simp add: transport_def one_request_button one_request_list one_request_client)

lemma sendMessage_unfold:
  "sendMessage rt net st ph msg ty =
     (if \<not> isReady st then (Inl not_ready, st)
      else (case fst (transport net st ph msg ty) of
              Inl e \<Rightarrow> (Inl e, snd (transport net st ph msg ty))
            | Inr res \<Rightarrow>
                (case js_toString rt msg of
                   Inl e \<Rightarrow> (Inl e, snd (transport net st ph msg ty))
                 | Inr logged \<Rightarrow> (delivered res, snd (transport net st ph msg ty)))))"
  by (simp add: sendMessage_def transport_def Let_def split_def split: sum.splits)

lemma delivered_success: "delivered res = Inr d \<Longrightarrow> success d"
  by (auto simp add: delivered_def split: sum.splits)

lemma sendMessage_frame:
  "isReady (snd (sendMessage rt net st ph msg ty)) = isReady st"
  "sessions (snd (sendMessage rt net st ph msg ty)) = sessions st"
  using one_request_transport [of net st ph msg ty]
  by (auto simp add: sendMessage_unfold one_request_def split: sum.splits)

text \<open>
  The log line: a message with an own \<^verbatim>\<open>toString\<close> is sent, and then \<^verbatim>\<open>sendMessage\<close>
  throws.
\<close>

lemma sendMessage_log_throws:
  "sendMessage rt (Inr res) (constructor\<lparr>isReady := True\<rparr>) ''8888-7777''
       (JObj [(''toString'', JNum 1)]) ''text''
     = (Inl TypeError,
        \<lparr>isReady = True, sessions = [],
         calls = [ClientSend (formatPhoneNumber ''8888-7777'') (JObj [(''toString'', JNum 1)])]\<rparr>)"
  by (simp add: sendMessage_text constructor_def)

lemma formatPhoneNumber_example: "formatPhoneNumber ''50688887777'' = ''50688887777@c.us''"
  by (simp add: formatPhoneNumber_def is_digit_def)

lemma formatPhoneNumber_local: "formatPhoneNumber ''8888-7777'' = ''50688887777@c.us''"
  by (simp add: formatPhoneNumber_def is_digit_def)

lemma delivered_sent_ok:
  "delivered sent_ok = Inr \<lparr>success = True, message_id = JStr ''true_50688887777@c.us_3EB0''\<rparr>"
  by (simp add: delivered_def sent_ok_def)

text \<open>
  C5, as stated, fails: with the transport ready and the request rejected,
  \<^verbatim>\<open>sendMessage\<close> gives its caller no failure result; its \<^verbatim>\<open>catch\<close> throws the
  rejection again.
\<close>

theorem sendMessage_rethrows_transport_error:
  "sendMessage rt_example (Inl (Rejected ''ECONNRESET'')) (constructor\<lparr>isReady := True\<rparr>)
       ''8888-7777'' (JStr ''Hola'') ''text''
     = (Inl (Rejected ''ECONNRESET''),
        \<lparr>isReady = True, sessions = [], calls = [ClientSend ''50688887777@c.us'' (JStr ''Hola'')]\<rparr>)"
  by (simp add: sendMessage_text formatPhoneNumber_local constructor_def)

text \<open>
  C5, amended. While the transport is not ready \<^verbatim>\<open>sendMessage\<close> throws at once and makes
  no request. With the transport ready and the request rejected it throws, and when it has
  made the request, what it throws is the rejection. What it returns is always a result
  with \<^verbatim>\<open>success: true\<close>.
\<close>

theorem sendMessage_throws_on_failure:
  "(\<not> isReady st \<longrightarrow> sendMessage rt net st ph msg ty = (Inl not_ready, st))
   \<and> (isReady st \<and> net = Inl e \<longrightarrow>
        isl (fst (sendMessage rt net st ph msg ty)) \<and>
        (calls (snd (sendMessage rt net st ph msg ty)) \<noteq> calls st \<longrightarrow>
           fst (sendMessage rt net st ph msg ty) = Inl e))
   \<and> (\<forall>d. fst (sendMessage rt net st ph msg ty) = Inr d \<longrightarrow> success d)"
proof (intro conjI impI allI)
  assume "\<not> isReady st"
  then show "sendMessage rt net st ph msg ty = (Inl not_ready, st)"
    by (simp add: sendMessage_unfold)
next
  assume a: "isReady st \<and> net = Inl e"
  from one_request_transport [of net st ph msg ty] a
  show "isl (fst (sendMessage rt net st ph msg ty))"
    by (auto simp add: sendMessage_unfold one_request_def)
next
  assume a: "isReady st \<and> net = Inl e"
    and b: "calls (snd (sendMessage rt net st ph msg ty)) \<noteq> calls st"
  from one_request_transport [of net st ph msg ty] a b
  show "fst (sendMessage rt net st ph msg ty) = Inl e"
    by (auto simp add: sendMessage_unfold one_request_def)
next
  fix d
  assume "fst (sendMessage rt net st ph msg ty) = Inr d"
  then show "success d"
    by (auto simp add: sendMessage_unfold not_ready_def delivered_success
        split: if_splits sum.splits)
qed

theorem sendMessage_throws_on_failure_witness:
  "\<not> isReady constructor
   \<and> sendMessage rt_example (Inr sent_ok) constructor ''8888-7777'' (JStr ''Hola'') ''text''
       = (Inl (JsError ''WhatsApp client not ready''), constructor)
   \<and> isReady st_cart
   \<and> calls (snd (sendMessage rt_example (Inl (Rejected ''ECONNRESET'')) st_cart ''8888-7777''
                   (JStr ''Hola'') ''text'')) \<noteq> calls st_cart
   \<and> fst (sendMessage rt_example (Inl (Rejected ''ECONNRESET'')) st_cart ''8888-7777''
            (JStr ''Hola'') ''text'')
       = Inl (Rejected ''ECONNRESET'')
   \<and> fst (sendMessage rt_example (Inr sent_ok) st_cart ''8888-7777'' (JStr ''Hola'') ''text'')
       = Inr \<lparr>success = True, message_id = JStr ''true_50688887777@c.us_3EB0''\<rparr>
   \<and> success \<lparr>success = True, message_id = JStr ''true_50688887777@c.us_3EB0''\<rparr>"
proof -
  have n: "\<not> isReady constructor" by (simp add: constructor_def)
  have r: "isReady st_cart" by (simp add: st_cart_def)
  have c: "calls (snd (sendMessage rt_example (Inl (Rejected ''ECONNRESET'')) st_cart ''8888-7777''
      (JStr ''Hola'') ''text'')) \<noteq> calls st_cart"
    by (simp add: sendMessage_text r)
  have d: "fst (sendMessage rt_example (Inr sent_ok) st_cart ''8888-7777'' (JStr ''Hola'') ''text'')
      = Inr \<lparr>success = True, message_id = JStr ''true_50688887777@c.us_3EB0''\<rparr>"
    by (simp add: sendMessage_text r delivered_sent_ok)
  show ?thesis
    using n r c d
      sendMessage_throws_on_failure [where st = constructor and net = "Inr sent_ok"
        and rt = rt_example and ph = "''8888-7777''" and msg = "JStr ''Hola''" and ty = "''text''"]
      sendMessage_throws_on_failure [where st = st_cart and net = "Inl (Rejected ''ECONNRESET'')"
        and rt = rt_example and e = "Rejected ''ECONNRESET''" and ph = "''8888-7777''"
        and msg = "JStr ''Hola''" and ty = "''text''"]
      sendMessage_throws_on_failure [where st = st_cart and net = "Inr sent_ok"
        and rt = rt_example and ph = "''8888-7777''" and msg = "JStr ''Hola''" and ty = "''text''"]
    by (simp add: not_ready_def)
qed


section \<open>The inbound handler\<close>

subsection \<open>The session and the reasoning call\<close>

lemma resolve_session:
  "fst (resolve io st ph) =
     (case lookup st ph of None \<Rightarrow> new_session io ph | Some s \<Rightarrow> s)
       \<lparr>last_activity := touched_at io\<rparr>"
  by (simp add: resolve_def lookup_def Let_def split: option.splits)

lemma resolve_lookup:
  "lookup (snd (resolve io st ph)) = (lookup st)(ph \<mapsto> fst (resolve io st ph))"
  by (rule ext)
     (simp add: resolve_def lookup_def Let_def write_through_def update_conv' split: option.splits)

lemma resolve_frame:
  "isReady (snd (resolve io st ph)) = isReady st"
  "calls (snd (resolve io st ph)) = calls st"
  by (simp_all add: resolve_def Let_def write_through_def split: option.splits)

lemma resolve_distinct:
  "distinct (map fst (sessions st)) \<Longrightarrow> distinct (map fst (sessions (snd (resolve io st ph))))"
  by (simp add: resolve_def Let_def write_through_def distinct_update split: option.splits)

lemma resolve_context: "s_context (fst (resolve io st ph)) = prior_context st ph"
  by (simp add: resolve_session prior_context_def new_session_def split: option.splits)

lemma resolve_id:
  "conversation_id (fst (resolve io st ph)) =
     (case lookup st ph of None \<Rightarrow> generateConversationId io | Some s \<Rightarrow> conversation_id s)"
  by (simp add: resolve_session new_session_def split: option.splits)

lemma resolve_phone:
  "phone (fst (resolve io st ph)) = (case lookup st ph of None \<Rightarrow> ph | Some s \<Rightarrow> phone s)"
  by (simp add: resolve_session new_session_def split: option.splits)

lemma processWithAI_snd:
  "snd (processWithAI io st ph msg sess) =
     st\<lparr>calls := calls st @
        [AgentPost (JObj [(''user_id'', JStr ph), (''message'', msg),
                          (''session_id'', JStr (conversation_id sess)),
                          (''context'', s_context sess)])]\<rparr>"
  by (simp add: processWithAI_def Let_def split: sum.splits)

lemma processWithAI_fst:
  "fst (processWithAI io st ph msg sess) =
     (case ai_result io of
        Inr data \<Rightarrow> data
      | Inl error \<Rightarrow> JObj [(''response'', JStr fallback_text), (''context'', s_context sess)])"
  by (simp add: processWithAI_def Let_def split: sum.splits)

text \<open>The two ways the \<^verbatim>\<open>try\<close> block begins.\<close>

lemma handle_try_early:
  assumes "\<not> reaches_engine rt message"
  shows "\<exists>e. handle_try rt io st message = (Inl e, st)"
  using assms
  by (auto simp add: handle_try_def reaches_engine_def isl_def split: sum.splits)

lemma handle_try_unfold:
  assumes "reaches_engine rt message"
  shows "handle_try rt io st message =
     respond rt io (asked rt io st message) (m_from message)
       (fst (resolve io st (m_from message))) (answer io st message)"
proof -
  from assms obtain content
    where c: "extractMessageContent rt message = Inr content"
      and n: "\<not> isl (js_toString rt content)"
    by (cases "extractMessageContent rt message") (auto simp add: reaches_engine_def)
  from n obtain logged where l: "js_toString rt content = Inr logged"
    by (cases "js_toString rt content") auto
  have "content_of rt message = content"
    by (simp add: content_of_def c)
  then show ?thesis
    by (simp add: handle_try_def c l asked_def answer_def Let_def split_def processWithAI_fst
        resolve_context split: sum.splits)
qed

lemma lookup_calls_update: "lookup (st\<lparr>calls := c\<rparr>) = lookup st"
  by (rule ext) (simp add: lookup_def)

lemma asked_frame:
  "isReady (asked rt io st message) = isReady st"
  "lookup (asked rt io st message) =
     (lookup st)(m_from message \<mapsto> fst (resolve io st (m_from message)))"
  "\<exists>req. calls (asked rt io st message) = calls st @ [AgentPost req]"
  by (simp_all add: asked_def processWithAI_snd resolve_frame resolve_lookup lookup_calls_update)

lemma asked_sessions:
  "sessions (asked rt io st message) = sessions (snd (resolve io st (m_from message)))"
  by (simp add: asked_def processWithAI_snd)

lemma write_through_lookup: "lookup (write_through st key s) = (lookup st)(key \<mapsto> s)"
  by (rule ext) (simp add: write_through_def lookup_def update_conv')

lemma write_through_frame:
  "isReady (write_through st key s) = isReady st"
  "calls (write_through st key s) = calls st"
  by (simp_all add: write_through_def)

subsection \<open>The ways the reply ends\<close>

text \<open>\<open>reply_fails\<close> says that the reply's \<^verbatim>\<open>sendMessage\<close> throws, and nothing else.\<close>

lemma reply_fails_iff:
  "reply_fails rt st io r \<longleftrightarrow> isl (fst (sendMessage rt (reply_send io) st ph r ''text''))"
  by (auto simp add: reply_fails_def sendMessage_text isl_def split: sum.splits)

lemma reply_fails_ready:
  "isReady st' = isReady st \<Longrightarrow> reply_fails rt st' io r = reply_fails rt st io r"
  by (simp add: reply_fails_def)

lemma respond_unreadable:
  "js_get aiResponse ''response'' = Inl e \<Longrightarrow> respond rt io st ph sess aiResponse = (Inl e, st)"
  by (simp add: respond_def)

lemma respond_not_ready:
  "js_get aiResponse ''response'' = Inr r \<Longrightarrow> \<not> isReady st
     \<Longrightarrow> respond rt io st ph sess aiResponse = (Inl not_ready, st)"
  by (simp add: respond_def sendMessage_text)

lemma respond_send_fails:
  assumes "js_get aiResponse ''response'' = Inr r" "isReady st" "reply_fails rt st io r"
  shows "\<exists>e. respond rt io st ph sess aiResponse =
     (Inl e, st\<lparr>calls := calls st @ [ClientSend (formatPhoneNumber ph) r]\<rparr>)"
  using assms
  by (auto simp add: respond_def sendMessage_text reply_fails_def isl_def split: sum.splits)

lemma respond_delivers:
  assumes "js_get aiResponse ''response'' = Inr r" "\<not> reply_fails rt st io r"
    "js_get aiResponse ''context'' = Inr c"
  shows "respond rt io st ph sess aiResponse =
     (Inr (), write_through (st\<lparr>calls := calls st @ [ClientSend (formatPhoneNumber ph) r]\<rparr>) ph
                (sess\<lparr>s_context := js_or c (s_context sess)\<rparr>))"
  using assms
  by (auto simp add: respond_def sendMessage_text reply_fails_def isl_def split: sum.splits)

lemma respond_lookup:
  "lookup (snd (respond rt io st ph sess aiResponse)) = lookup st
   \<or> (\<exists>c. lookup (snd (respond rt io st ph sess aiResponse)) =
            (lookup st)(ph \<mapsto> sess\<lparr>s_context := c\<rparr>))"
  by (auto simp add: respond_def sendMessage_text write_through_lookup lookup_calls_update
      split: sum.splits)

lemma respond_sessions:
  "sessions (snd (respond rt io st ph sess aiResponse)) = sessions st
   \<or> (\<exists>c. sessions (snd (respond rt io st ph sess aiResponse))
            = AList.update ph (sess\<lparr>s_context := c\<rparr>) (sessions st))"
  by (auto simp add: respond_def sendMessage_text write_through_def split: sum.splits)

lemma respond_calls:
  "calls (snd (respond rt io st ph sess aiResponse)) = calls st
   \<or> (\<exists>r. calls (snd (respond rt io st ph sess aiResponse)) =
            calls st @ [ClientSend (formatPhoneNumber ph) r])"
  by (auto simp add: respond_def sendMessage_text write_through_def split: sum.splits)

subsection \<open>The ways a turn ends\<close>

lemma handleIncomingMessage_unfold:
  "handleIncomingMessage rt io st message =
     (case handle_try rt io st message of
        (Inr u, st') \<Rightarrow> (Inr (), st')
      | (Inl e, st') \<Rightarrow>
          (Inr (), if isReady st'
                   then st'\<lparr>calls := calls st' @
                          [ClientSend (formatPhoneNumber (m_from message)) (JStr fallback_text)]\<rparr>
                   else st'))"
  by (simp add: handleIncomingMessage_def try_catch_def sendMessage_text
      split: prod.splits sum.splits)

lemma turn_early:
  assumes "\<not> reaches_engine rt message"
  shows "snd (handleIncomingMessage rt io st message) =
     (if isReady st
      then st\<lparr>calls := calls st @
             [ClientSend (formatPhoneNumber (m_from message)) (JStr fallback_text)]\<rparr>
      else st)"
  using handle_try_early [OF assms, of io st]
  by (auto simp add: handleIncomingMessage_unfold)

lemma turn_unreadable:
  assumes "reaches_engine rt message" "js_get (answer io st message) ''response'' = Inl e"
  shows "snd (handleIncomingMessage rt io st message) =
     (if isReady st
      then (asked rt io st message)\<lparr>calls := calls (asked rt io st message) @
             [ClientSend (formatPhoneNumber (m_from message)) (JStr fallback_text)]\<rparr>
      else asked rt io st message)"
  by (simp add: handleIncomingMessage_unfold handle_try_unfold [OF assms(1)]
      respond_unreadable [OF assms(2)] asked_frame(1))

lemma turn_not_ready:
  assumes "reaches_engine rt message" "js_get (answer io st message) ''response'' = Inr r"
    "\<not> isReady st"
  shows "snd (handleIncomingMessage rt io st message) = asked rt io st message"
  using assms(2,3)
  by (simp add: handleIncomingMessage_unfold handle_try_unfold [OF assms(1)] respond_not_ready
      asked_frame(1))

lemma turn_send_fails:
  assumes "reaches_engine rt message" "js_get (answer io st message) ''response'' = Inr r"
    "isReady st" "reply_fails rt st io r"
  shows "snd (handleIncomingMessage rt io st message) =
     (asked rt io st message)\<lparr>calls := calls (asked rt io st message) @
        [ClientSend (formatPhoneNumber (m_from message)) r,
         ClientSend (formatPhoneNumber (m_from message)) (JStr fallback_text)]\<rparr>"
proof -
  have "reply_fails rt (asked rt io st message) io r"
    using assms(4) by (simp add: reply_fails_ready [OF asked_frame(1)])
  then obtain e where "handle_try rt io st message =
      (Inl e, (asked rt io st message)\<lparr>calls := calls (asked rt io st message) @
         [ClientSend (formatPhoneNumber (m_from message)) r]\<rparr>)"
    using respond_send_fails [OF assms(2), of "asked rt io st message" rt io] assms(3)
    by (auto simp add: handle_try_unfold [OF assms(1)] asked_frame(1))
  then show ?thesis
    by (simp add: handleIncomingMessage_unfold asked_frame(1) assms(3))
qed

lemma turn_delivers:
  assumes "reaches_engine rt message" "js_get (answer io st message) ''response'' = Inr r"
    "\<not> reply_fails rt st io r" "js_get (answer io st message) ''context'' = Inr c"
  shows "snd (handleIncomingMessage rt io st message) =
     write_through
       ((asked rt io st message)\<lparr>calls := calls (asked rt io st message) @
          [ClientSend (formatPhoneNumber (m_from message)) r]\<rparr>)
       (m_from message)
       ((fst (resolve io st (m_from message)))
          \<lparr>s_context := js_or c (prior_context st (m_from message))\<rparr>)"
proof -
  have "\<not> reply_fails rt (asked rt io st message) io r"
    using assms(3) by (simp add: reply_fails_ready [OF asked_frame(1)])
  from respond_delivers [OF assms(2) this assms(4)]
  show ?thesis
    by (simp add: handleIncomingMessage_unfold handle_try_unfold [OF assms(1)] resolve_context)
qed

text \<open>The turn makes the reasoning call exactly when the handler comes to it.\<close>

lemma agent_call_reaches:
  assumes "AgentPost req \<in> set (new_calls st (snd (handleIncomingMessage rt io st message)))"
  shows "reaches_engine rt message"
proof (rule ccontr)
  assume "\<not> reaches_engine rt message"
  from turn_early [OF this, of io st] assms show False
    by (auto simp add: new_calls_def split: if_splits)
qed

lemma handle_try_calls:
  "calls (snd (handle_try rt io st message)) = calls st
   \<or> (\<exists>req. calls (snd (handle_try rt io st message)) = calls st @ [AgentPost req]
        \<or> (\<exists>r. calls (snd (handle_try rt io st message)) =
                 calls st @ [AgentPost req, ClientSend (formatPhoneNumber (m_from message)) r]))"
proof (cases "reaches_engine rt message")
  case False
  then show ?thesis
    using handle_try_early [of rt message io st] by auto
next
  case True
  obtain req where "calls (asked rt io st message) = calls st @ [AgentPost req]"
    using asked_frame(3) by blast
  then show ?thesis
    using respond_calls [of rt io "asked rt io st message" "m_from message"
        "fst (resolve io st (m_from message))" "answer io st message"]
    by (auto simp add: handle_try_unfold [OF True])
qed

lemma reaches_agent_call:
  assumes "reaches_engine rt message"
  shows "\<exists>req. AgentPost req \<in> set (new_calls st (snd (handleIncomingMessage rt io st message)))"
proof -
  obtain req where a: "calls (asked rt io st message) = calls st @ [AgentPost req]"
    using asked_frame(3) by blast
  have "calls (snd (handle_try rt io st message)) = calls (asked rt io st message)
      \<or> (\<exists>r. calls (snd (handle_try rt io st message)) = calls (asked rt io st message) @ [r])"
    using respond_calls [of rt io "asked rt io st message" "m_from message"
        "fst (resolve io st (m_from message))" "answer io st message"]
    by (auto simp add: handle_try_unfold [OF assms])
  then have "AgentPost req \<in> set (new_calls st (snd (handleIncomingMessage rt io st message)))"
    by (auto simp add: a new_calls_def handleIncomingMessage_unfold split: prod.splits sum.splits)
  then show ?thesis ..
qed

subsection \<open>The examples\<close>

lemma m_from_hola: "m_from hola = ''50688887777''"
  by (simp add: hola_def)

lemma prior_context_cart: "prior_context st_cart ''50688887777'' = JObj [(''cart'', JStr ''shoes'')]"
  by (simp add: prior_context_def lookup_def st_cart_def cart_session_def)

lemma isReady_cart: "isReady st_cart"
  by (simp add: st_cart_def)

lemmas turn_defs =
  handleIncomingMessage_def try_catch_def handle_try_def resolve_def respond_def
  processWithAI_def sendMessage_def write_through_def new_session_def generateConversationId_def
  extractMessageContent_def delivered_def js_or_def lookup_def new_calls_def
  formatPhoneNumber_def is_digit_def io_example_def hola_def sent_ok_def st_cart_def
  cart_session_def constructor_def Let_def

text \<open>
  A text whose body is the object \<^verbatim>\<open>{"toString": 1}\<close>, from a user with no session: the
  log line before the session is fetched throws, and the turn creates no session and makes
  the request for the apology only.
\<close>

lemma early_throw_example:
  "handleIncomingMessage rt_example io_example (constructor\<lparr>isReady := True\<rparr>)
       (hola\<lparr>body := JObj [(''toString'', JNum 1)]\<rparr>)
     = (Inr (),
        \<lparr>isReady = True, sessions = [],
         calls = [ClientSend ''50688887777@c.us'' (JStr fallback_text)]\<rparr>)"
  by (simp add: turn_defs)

text \<open>
  An answer whose response is the object \<^verbatim>\<open>{"toString": 1}\<close>: the reply is sent, the log
  line after the send throws, the apology is sent and the session keeps its cart.
\<close>

lemma log_throw_example:
  "handleIncomingMessage rt_example
       (io_example\<lparr>ai_result := Inr (JObj [(''response'', JObj [(''toString'', JNum 1)]),
                                            (''context'', JObj [(''step'', JStr ''checkout'')])])\<rparr>)
       st_cart hola
     = (Inr (),
        \<lparr>isReady = True,
         sessions = [(''50688887777'', cart_session\<lparr>last_activity := 1700000000000\<rparr>)],
         calls = [AgentPost (JObj [(''user_id'', JStr ''50688887777''), (''message'', JStr ''Hola''),
                                   (''session_id'', JStr ''conv_1699999990000_a1b2c3d4e''),
                                   (''context'', JObj [(''cart'', JStr ''shoes'')])]),
                  ClientSend ''50688887777@c.us'' (JObj [(''toString'', JNum 1)]),
                  ClientSend ''50688887777@c.us'' (JStr fallback_text)]\<rparr>)"
  by (simp add: turn_defs)

subsection \<open>A turn whose reasoning call fails\<close>

text \<open>
  C2. In a turn that makes the reasoning call and in which the call fails, every delivery
  request carries the fixed fallback text to the sender, a ready bot makes such a
  request, the sender's session ends the turn with the context it had when the handler
  fetched it (the empty object for a session the turn created), and no other session
  changes.
\<close>

theorem failed_reasoning_turn:
  assumes "AgentPost req \<in> set (new_calls st (snd (handleIncomingMessage rt io st message)))"
    and "ai_result io = Inl e"
  shows "(\<forall>c \<in> set (new_calls st (snd (handleIncomingMessage rt io st message))).
            is_delivery c \<longrightarrow>
            c = ClientSend (formatPhoneNumber (m_from message)) (JStr fallback_text))
       \<and> (isReady st \<longrightarrow>
            ClientSend (formatPhoneNumber (m_from message)) (JStr fallback_text)
              \<in> set (new_calls st (snd (handleIncomingMessage rt io st message))))
       \<and> map_option s_context
            (lookup (snd (handleIncomingMessage rt io st message)) (m_from message))
            = Some (prior_context st (m_from message))
       \<and> (\<forall>other. other \<noteq> m_from message \<longrightarrow>
            lookup (snd (handleIncomingMessage rt io st message)) other = lookup st other)"
proof -
  let ?ph = "m_from message"
  let ?A = "asked rt io st message"
  have reach: "reaches_engine rt message"
    using assms(1) by (rule agent_call_reaches)
  have r: "js_get (answer io st message) ''response'' = Inr (JStr fallback_text)"
    and c: "js_get (answer io st message) ''context'' = Inr (prior_context st ?ph)"
    using assms(2) by (simp_all add: answer_def)
  obtain req' where calls: "calls ?A = calls st @ [AgentPost req']"
    using asked_frame(3) by blast
  have keep: "(fst (resolve io st ?ph))
      \<lparr>s_context := js_or (prior_context st ?ph) (prior_context st ?ph)\<rparr> = fst (resolve io st ?ph)"
    using resolve_context [of io st ?ph] by (simp add: js_or_def)
  show ?thesis
  proof (cases "isReady st")
    case False
    then show ?thesis
      by (simp add: turn_not_ready [OF reach r] new_calls_def calls asked_frame(2) resolve_context)
  next
    case True
    show ?thesis
    proof (cases "reply_fails rt st io (JStr fallback_text)")
      case fails: True
      show ?thesis
        by (simp add: turn_send_fails [OF reach r True fails] new_calls_def calls
            lookup_calls_update asked_frame(2) resolve_context)
    next
      case False
      show ?thesis
        by (simp add: turn_delivers [OF reach r False c] keep new_calls_def calls
            write_through_frame write_through_lookup lookup_calls_update asked_frame(2)
            resolve_context)
    qed
  qed
qed

theorem failed_reasoning_turn_witness:
  "AgentPost (JObj [(''user_id'', JStr ''50688887777''), (''message'', JStr ''Hola''),
                    (''session_id'', JStr ''conv_1699999990000_a1b2c3d4e''),
                    (''context'', JObj [(''cart'', JStr ''shoes'')])])
     \<in> set (new_calls st_cart (snd (handleIncomingMessage rt_example
          (io_example\<lparr>ai_result := Inl (Rejected ''timeout of 5000ms exceeded'')\<rparr>) st_cart hola)))
   \<and> ai_result (io_example\<lparr>ai_result := Inl (Rejected ''timeout of 5000ms exceeded'')\<rparr>)
       = Inl (Rejected ''timeout of 5000ms exceeded'')
   \<and> isReady st_cart
   \<and> ClientSend ''50688887777@c.us'' (JStr fallback_text)
       \<in> set (new_calls st_cart (snd (handleIncomingMessage rt_example
            (io_example\<lparr>ai_result := Inl (Rejected ''timeout of 5000ms exceeded'')\<rparr>) st_cart hola)))
   \<and> map_option s_context
        (lookup (snd (handleIncomingMessage rt_example
           (io_example\<lparr>ai_result := Inl (Rejected ''timeout of 5000ms exceeded'')\<rparr>) st_cart hola))
           ''50688887777'')
       = Some (JObj [(''cart'', JStr ''shoes'')])
   \<and> lookup (snd (handleIncomingMessage rt_example
         (io_example\<lparr>ai_result := Inl (Rejected ''timeout of 5000ms exceeded'')\<rparr>) st_cart hola))
         ''50611112222''
       = lookup st_cart ''50611112222''"
proof -
  let ?io = "io_example\<lparr>ai_result := Inl (Rejected ''timeout of 5000ms exceeded'')\<rparr>"
  let ?req = "JObj [(''user_id'', JStr ''50688887777''), (''message'', JStr ''Hola''),
                    (''session_id'', JStr ''conv_1699999990000_a1b2c3d4e''),
                    (''context'', JObj [(''cart'', JStr ''shoes'')])]"
  have a: "AgentPost ?req
      \<in> set (new_calls st_cart (snd (handleIncomingMessage rt_example ?io st_cart hola)))"
    by (simp add: turn_defs)
  have h: "ai_result ?io = Inl (Rejected ''timeout of 5000ms exceeded'')"
    by simp
  show ?thesis
    using a h isReady_cart failed_reasoning_turn [OF a h]
    by (simp add: m_from_hola prior_context_cart formatPhoneNumber_example)
qed

subsection \<open>A turn whose reply is delivered\<close>

text \<open>
  C3, as stated, fails. The engine answers with the context \<^verbatim>\<open>null\<close>, the reply is
  delivered, and the session keeps the cart it had: \<^verbatim>\<open>null\<close> is not stored.
\<close>

theorem null_context_is_not_stored:
  "fst (handleIncomingMessage rt_example
          (io_example\<lparr>ai_result := Inr (JObj [(''response'', JStr ''Claro''), (''context'', JNull)])\<rparr>)
          st_cart hola) = Inr ()
   \<and> new_calls st_cart (snd (handleIncomingMessage rt_example
          (io_example\<lparr>ai_result := Inr (JObj [(''response'', JStr ''Claro''), (''context'', JNull)])\<rparr>)
          st_cart hola))
       = [AgentPost (JObj [(''user_id'', JStr ''50688887777''), (''message'', JStr ''Hola''),
                           (''session_id'', JStr ''conv_1699999990000_a1b2c3d4e''),
                           (''context'', JObj [(''cart'', JStr ''shoes'')])]),
          ClientSend ''50688887777@c.us'' (JStr ''Claro'')]
   \<and> map_option s_context
        (lookup (snd (handleIncomingMessage rt_example
           (io_example\<lparr>ai_result := Inr (JObj [(''response'', JStr ''Claro''), (''context'', JNull)])\<rparr>)
           st_cart hola)) ''50688887777'')
       = Some (JObj [(''cart'', JStr ''shoes'')])
   \<and> JObj [(''cart'', JStr ''shoes'')] \<noteq> JNull"
  by (simp add: turn_defs)

text \<open>
  C3, amended. In a turn that makes the reasoning call, in which the engine answers with
  a readable object and the reply's \<^verbatim>\<open>sendMessage\<close> returns, the session's context after
  the turn is the returned context when that value is truthy, and the context the session
  had otherwise (a returned context that is absent, \<^verbatim>\<open>null\<close>, \<^verbatim>\<open>false\<close>, \<^verbatim>\<open>0\<close> or the
  empty string is not stored). The stored value is the returned one as it is: nothing of
  the earlier context is merged into it.
\<close>

theorem successful_turn_context:
  assumes "AgentPost req \<in> set (new_calls st (snd (handleIncomingMessage rt io st message)))"
    and "ai_result io = Inr data" and "js_get data ''response'' = Inr r"
    and "js_get data ''context'' = Inr returned" and "\<not> reply_fails rt st io r"
  shows "map_option s_context
           (lookup (snd (handleIncomingMessage rt io st message)) (m_from message))
     = Some (if truthy returned then returned else prior_context st (m_from message))"
proof -
  have reach: "reaches_engine rt message"
    using assms(1) by (rule agent_call_reaches)
  have r: "js_get (answer io st message) ''response'' = Inr r"
    and c: "js_get (answer io st message) ''context'' = Inr returned"
    using assms(2,3,4) by (simp_all add: answer_def)
  show ?thesis
    by (simp add: turn_delivers [OF reach r assms(5) c] write_through_lookup js_or_def)
qed

theorem successful_turn_context_witness:
  "AgentPost (JObj [(''user_id'', JStr ''50688887777''), (''message'', JStr ''Hola''),
                    (''session_id'', JStr ''conv_1699999990000_a1b2c3d4e''),
                    (''context'', JObj [(''cart'', JStr ''shoes'')])])
     \<in> set (new_calls st_cart (snd (handleIncomingMessage rt_example io_example st_cart hola)))
   \<and> ai_result io_example
       = Inr (JObj [(''response'', JStr ''Claro''), (''context'', JObj [(''step'', JStr ''checkout'')])])
   \<and> js_get (JObj [(''response'', JStr ''Claro''), (''context'', JObj [(''step'', JStr ''checkout'')])])
         ''response'' = Inr (JStr ''Claro'')
   \<and> js_get (JObj [(''response'', JStr ''Claro''), (''context'', JObj [(''step'', JStr ''checkout'')])])
         ''context'' = Inr (JObj [(''step'', JStr ''checkout'')])
   \<and> \<not> reply_fails rt_example st_cart io_example (JStr ''Claro'')
   \<and> map_option s_context
        (lookup (snd (handleIncomingMessage rt_example io_example st_cart hola)) ''50688887777'')
       = Some (JObj [(''step'', JStr ''checkout'')])"
proof -
  let ?data = "JObj [(''response'', JStr ''Claro''), (''context'', JObj [(''step'', JStr ''checkout'')])]"
  let ?req = "JObj [(''user_id'', JStr ''50688887777''), (''message'', JStr ''Hola''),
                    (''session_id'', JStr ''conv_1699999990000_a1b2c3d4e''),
                    (''context'', JObj [(''cart'', JStr ''shoes'')])]"
  have p: "AgentPost ?req
      \<in> set (new_calls st_cart (snd (handleIncomingMessage rt_example io_example st_cart hola)))"
    by (simp add: turn_defs)
  have a: "ai_result io_example = Inr ?data" by (simp add: io_example_def)
  have r: "js_get ?data ''response'' = Inr (JStr ''Claro'')" by simp
  have c: "js_get ?data ''context'' = Inr (JObj [(''step'', JStr ''checkout'')])" by simp
  have d: "\<not> reply_fails rt_example st_cart io_example (JStr ''Claro'')"
    by (simp add: reply_fails_def isReady_cart io_example_def delivered_sent_ok)
  show ?thesis
    using p a r c d successful_turn_context [OF p a r c d]
    by (simp add: m_from_hola)
qed

subsection \<open>A turn whose reply is not delivered\<close>

text \<open>
  C4, as stated, fails. The engine answers with a new context, the transport rejects the
  reply, and the turn ends with the cart the session had: the returned context had not
  been stored before the delivery.
\<close>

theorem context_not_stored_before_delivery:
  "new_calls st_cart (snd (handleIncomingMessage rt_example
        (io_example\<lparr>reply_send := Inl (Rejected ''ECONNRESET'')\<rparr>) st_cart hola))
     = [AgentPost (JObj [(''user_id'', JStr ''50688887777''), (''message'', JStr ''Hola''),
                         (''session_id'', JStr ''conv_1699999990000_a1b2c3d4e''),
                         (''context'', JObj [(''cart'', JStr ''shoes'')])]),
        ClientSend ''50688887777@c.us'' (JStr ''Claro''),
        ClientSend ''50688887777@c.us'' (JStr fallback_text)]
   \<and> map_option s_context
        (lookup (snd (handleIncomingMessage rt_example
           (io_example\<lparr>reply_send := Inl (Rejected ''ECONNRESET'')\<rparr>) st_cart hola))
           ''50688887777'')
       = Some (JObj [(''cart'', JStr ''shoes'')])
   \<and> JObj [(''cart'', JStr ''shoes'')] \<noteq> JObj [(''step'', JStr ''checkout'')]"
  by (simp add: turn_defs)

text \<open>
  C4, amended. In a turn that makes the reasoning call and in which the engine answers
  with a readable object, the reply is sent before the context is assigned: when the
  reply's \<^verbatim>\<open>sendMessage\<close> throws, the turn ends with the context the session had, and a
  ready bot has by then made the delivery request for the reply and the one for the
  apology.
\<close>

theorem failed_delivery_keeps_context:
  assumes "AgentPost req \<in> set (new_calls st (snd (handleIncomingMessage rt io st message)))"
    and "ai_result io = Inr data" and "js_get data ''response'' = Inr r"
    and "reply_fails rt st io r"
  shows "map_option s_context
           (lookup (snd (handleIncomingMessage rt io st message)) (m_from message))
       = Some (prior_context st (m_from message))
     \<and> (isReady st \<longrightarrow>
          drop 1 (new_calls st (snd (handleIncomingMessage rt io st message))) =
            [ClientSend (formatPhoneNumber (m_from message)) r,
             ClientSend (formatPhoneNumber (m_from message)) (JStr fallback_text)])"
proof -
  have reach: "reaches_engine rt message"
    using assms(1) by (rule agent_call_reaches)
  have r: "js_get (answer io st message) ''response'' = Inr r"
    using assms(2,3) by (simp add: answer_def)
  obtain req' where calls: "calls (asked rt io st message) = calls st @ [AgentPost req']"
    using asked_frame(3) by blast
  show ?thesis
  proof (cases "isReady st")
    case False
    then show ?thesis
      by (simp add: turn_not_ready [OF reach r] asked_frame(2) resolve_context)
  next
    case True
    show ?thesis
      by (simp add: turn_send_fails [OF reach r True assms(4)] new_calls_def calls
          lookup_calls_update asked_frame(2) resolve_context)
  qed
qed

theorem failed_delivery_keeps_context_witness:
  "AgentPost (JObj [(''user_id'', JStr ''50688887777''), (''message'', JStr ''Hola''),
                    (''session_id'', JStr ''conv_1699999990000_a1b2c3d4e''),
                    (''context'', JObj [(''cart'', JStr ''shoes'')])])
     \<in> set (new_calls st_cart (snd (handleIncomingMessage rt_example
          (io_example\<lparr>reply_send := Inl (Rejected ''ECONNRESET'')\<rparr>) st_cart hola)))
   \<and> ai_result (io_example\<lparr>reply_send := Inl (Rejected ''ECONNRESET'')\<rparr>)
       = Inr (JObj [(''response'', JStr ''Claro''), (''context'', JObj [(''step'', JStr ''checkout'')])])
   \<and> js_get (JObj [(''response'', JStr ''Claro''), (''context'', JObj [(''step'', JStr ''checkout'')])])
         ''response'' = Inr (JStr ''Claro'')
   \<and> reply_fails rt_example st_cart (io_example\<lparr>reply_send := Inl (Rejected ''ECONNRESET'')\<rparr>)
         (JStr ''Claro'')
   \<and> isReady st_cart
   \<and> map_option s_context
        (lookup (snd (handleIncomingMessage rt_example
           (io_example\<lparr>reply_send := Inl (Rejected ''ECONNRESET'')\<rparr>) st_cart hola))
           ''50688887777'')
       = Some (JObj [(''cart'', JStr ''shoes'')])
   \<and> drop 1 (new_calls st_cart (snd (handleIncomingMessage rt_example
        (io_example\<lparr>reply_send := Inl (Rejected ''ECONNRESET'')\<rparr>) st_cart hola)))
       = [ClientSend ''50688887777@c.us'' (JStr ''Claro''),
          ClientSend ''50688887777@c.us'' (JStr fallback_text)]"
proof -
  let ?io = "io_example\<lparr>reply_send := Inl (Rejected ''ECONNRESET'')\<rparr>"
  let ?data = "JObj [(''response'', JStr ''Claro''), (''context'', JObj [(''step'', JStr ''checkout'')])]"
  let ?req = "JObj [(''user_id'', JStr ''50688887777''), (''message'', JStr ''Hola''),
                    (''session_id'', JStr ''conv_1699999990000_a1b2c3d4e''),
                    (''context'', JObj [(''cart'', JStr ''shoes'')])]"
  have p: "AgentPost ?req
      \<in> set (new_calls st_cart (snd (handleIncomingMessage rt_example ?io st_cart hola)))"
    by (simp add: turn_defs)
  have a: "ai_result ?io = Inr ?data" by (simp add: io_example_def)
  have r: "js_get ?data ''response'' = Inr (JStr ''Claro'')" by simp
  have f: "reply_fails rt_example st_cart ?io (JStr ''Claro'')" by (simp add: reply_fails_def)
  show ?thesis
    using p a r f isReady_cart failed_delivery_keeps_context [OF p a r f]
    by (simp add: m_from_hola prior_context_cart formatPhoneNumber_example)
qed

subsection \<open>No exception leaves the handler\<close>

text \<open>
  C10. The handler completes for every message, every bot and everything the remote calls
  give. It ends as its \<^verbatim>\<open>try\<close> block ended, or, when that block threw, after at most the
  one request for the apology, whose failure is dropped; a turn makes three requests at
  most (the reasoning call, the reply, the apology).
\<close>

theorem handleIncomingMessage_never_throws:
  "fst (handleIncomingMessage rt io st message) = Inr ()
   \<and> ((fst (handle_try rt io st message) = Inr () \<and>
        snd (handleIncomingMessage rt io st message) = snd (handle_try rt io st message))
      \<or> (isl (fst (handle_try rt io st message)) \<and>
          (snd (handleIncomingMessage rt io st message) = snd (handle_try rt io st message)
           \<or> snd (handleIncomingMessage rt io st message) =
               (snd (handle_try rt io st message))
                 \<lparr>calls := calls (snd (handle_try rt io st message)) @
                    [ClientSend (formatPhoneNumber (m_from message)) (JStr fallback_text)]\<rparr>)))
   \<and> length (new_calls st (snd (handleIncomingMessage rt io st message))) \<le> 3"
proof -
  have "length (new_calls st (snd (handle_try rt io st message))) \<le> 2"
    using handle_try_calls [of rt io st message] by (auto simp add: new_calls_def)
  then show ?thesis
    by (auto simp add: handleIncomingMessage_unfold new_calls_def split: prod.splits sum.splits)
qed

theorem handleIncomingMessage_never_throws_witness:
  "handleIncomingMessage rt_example
      (io_example\<lparr>ai_result := Inr JNull, apology_send := Inl (Rejected ''ECONNRESET'')\<rparr>)
      st_cart hola
     = (Inr (),
        st_cart\<lparr>sessions := [(''50688887777'', cart_session\<lparr>last_activity := 1700000000000\<rparr>)],
                calls := [AgentPost (JObj [(''user_id'', JStr ''50688887777''),
                                           (''message'', JStr ''Hola''),
                                           (''session_id'', JStr ''conv_1699999990000_a1b2c3d4e''),
                                           (''context'', JObj [(''cart'', JStr ''shoes'')])]),
                          ClientSend ''50688887777@c.us'' (JStr fallback_text)]\<rparr>)"
proof -
  let ?io = "io_example\<lparr>ai_result := Inr JNull, apology_send := Inl (Rejected ''ECONNRESET'')\<rparr>"
  have "snd (handleIncomingMessage rt_example ?io st_cart hola)
      = st_cart\<lparr>sessions := [(''50688887777'', cart_session\<lparr>last_activity := 1700000000000\<rparr>)],
                calls := [AgentPost (JObj [(''user_id'', JStr ''50688887777''),
                                           (''message'', JStr ''Hola''),
                                           (''session_id'', JStr ''conv_1699999990000_a1b2c3d4e''),
                                           (''context'', JObj [(''cart'', JStr ''shoes'')])]),
                          ClientSend ''50688887777@c.us'' (JStr fallback_text)]\<rparr>"
    by (simp add: turn_defs)
  then show ?thesis
    using handleIncomingMessage_never_throws [of rt_example ?io st_cart hola]
    by (simp add: prod_eq_iff)
qed


section \<open>The session store\<close>

subsection \<open>The sweep\<close>

lemma cleanup_loop_filter:
  "cleanup_loop now es store =
     filter (\<lambda>(ph, sess). ph \<notin> fst ` {e \<in> set es. stale now (snd e)}) store"
proof (induction es arbitrary: store)
  case Nil
  then show ?case by simp
next
  case (Cons e es)
  obtain ph sess where e: "e = (ph, sess)" by (cases e)
  show ?case
  proof (cases "stale now sess")
    case True
    then have "cleanup_loop now (e # es) store = cleanup_loop now es (AList.delete ph store)"
      by (simp add: e stale_def)
    also have "\<dots> = filter (\<lambda>(p, s). p \<notin> fst ` {e \<in> set es. stale now (snd e)})
                      (filter (\<lambda>(p, s). ph \<noteq> p) store)"
      by (simp add: Cons.IH AList.delete_eq case_prod_unfold)
    also have "\<dots> = filter (\<lambda>(p, s). p \<notin> insert ph (fst ` {x \<in> set es. stale now (snd x)})) store"
      by (auto intro!: filter_cong)
    also have "insert ph (fst ` {x \<in> set es. stale now (snd x)})
        = fst ` {x \<in> set (e # es). stale now (snd x)}"
      using True by (force simp add: e)
    finally show ?thesis .
  next
    case False
    then have "cleanup_loop now (e # es) store = cleanup_loop now es store"
      by (simp add: e stale_def)
    also have "\<dots> = filter (\<lambda>(p, s). p \<notin> fst ` {x \<in> set es. stale now (snd x)}) store"
      by (simp add: Cons.IH)
    also have "{x \<in> set es. stale now (snd x)} = {x \<in> set (e # es). stale now (snd x)}"
      using False by (auto simp add: e)
    finally show ?thesis .
  qed
qed

text \<open>With one entry for a key, the keys of the stale entries are the stale entries.\<close>

lemma sessions_cleanup:
  assumes "distinct (map fst (sessions st))"
  shows "sessions (cleanupSessions now st) =
     filter (\<lambda>(ph, sess). \<not> stale now sess) (sessions st)"
proof -
  have "filter (\<lambda>(ph, sess). ph \<notin> fst ` {e \<in> set (sessions st). stale now (snd e)}) (sessions st)
      = filter (\<lambda>(ph, sess). \<not> stale now sess) (sessions st)"
  proof (rule filter_cong [OF refl])
    fix x assume x: "x \<in> set (sessions st)"
    obtain ph sess where xe: "x = (ph, sess)" by (cases x)
    have "ph \<in> fst ` {e \<in> set (sessions st). stale now (snd e)} \<longleftrightarrow> stale now sess"
    proof
      assume "ph \<in> fst ` {e \<in> set (sessions st). stale now (snd e)}"
      then obtain sess' where "(ph, sess') \<in> set (sessions st)" "stale now sess'"
        by auto
      moreover have "sess' = sess"
        using assms x xe calculation(1) by (meson eq_key_imp_eq_value)
      ultimately show "stale now sess" by simp
    next
      assume "stale now sess"
      with x xe show "ph \<in> fst ` {e \<in> set (sessions st). stale now (snd e)}"
        by force
    qed
    then show "(case x of (ph, sess) \<Rightarrow> ph \<notin> fst ` {e \<in> set (sessions st). stale now (snd e)})
        = (case x of (ph, sess) \<Rightarrow> \<not> stale now sess)"
      by (simp add: xe)
  qed
  then show ?thesis
    by (simp add: cleanupSessions_def cleanup_loop_filter)
qed

text \<open>
  C8. For a store with one entry for a user, as a \<^verbatim>\<open>Map\<close> is, and every current time,
  the sweep leaves the entries whose idle time \<open>now - last_activity\<close> is at most 24 hours,
  in their order, and removes the others; it changes nothing else of the bot.
\<close>

theorem cleanupSessions_exact:
  assumes "distinct (map fst (sessions st))"
  shows "sessions (cleanupSessions now st) =
           filter (\<lambda>(ph, sess). \<not> now - last_activity sess > 24 * 60 * 60 * 1000) (sessions st)
       \<and> isReady (cleanupSessions now st) = isReady st
       \<and> calls (cleanupSessions now st) = calls st"
proof -
  have "sessions (cleanupSessions now st) =
      filter (\<lambda>(ph, sess). \<not> now - last_activity sess > 24 * 60 * 60 * 1000) (sessions st)"
    using sessions_cleanup [OF assms, of now] by (simp add: stale_def maxAge_def)
  then show ?thesis
    by (simp add: cleanupSessions_def)
qed

theorem cleanupSessions_exact_witness:
  "distinct (map fst [(''50688887777'', cart_session),
                      (''50611112222'', cart_session\<lparr>phone := ''50611112222'',
                                                       last_activity := 1699999990001\<rparr>)])
   \<and> sessions (cleanupSessions 1700086390001
        (st_cart\<lparr>sessions := [(''50688887777'', cart_session),
                               (''50611112222'', cart_session\<lparr>phone := ''50611112222'',
                                                                last_activity := 1699999990001\<rparr>)]\<rparr>))
       = [(''50611112222'', cart_session\<lparr>phone := ''50611112222'', last_activity := 1699999990001\<rparr>)]"
proof -
  let ?store = "[(''50688887777'', cart_session),
                 (''50611112222'', cart_session\<lparr>phone := ''50611112222'',
                                                  last_activity := 1699999990001\<rparr>)]"
  have d: "distinct (map fst (sessions (st_cart\<lparr>sessions := ?store\<rparr>)))" by simp
  show ?thesis
    using d cleanupSessions_exact [OF d, of 1700086390001]
    by (simp add: cart_session_def)
qed

subsection \<open>One session for a user, with one conversation id\<close>

lemma cleanup_distinct:
  "distinct (map fst (sessions st)) \<Longrightarrow> distinct (map fst (sessions (cleanupSessions now st)))"
  by (simp add: sessions_cleanup distinct_map_filter)

lemma cleanup_lookup:
  assumes "distinct (map fst (sessions st))" "lookup (cleanupSessions now st) ph = Some s"
  shows "lookup st ph = Some s"
proof -
  have "(ph, s) \<in> set (sessions (cleanupSessions now st))"
    using assms(2) by (simp add: lookup_def map_of_SomeD)
  then have "(ph, s) \<in> set (sessions st)"
    by (simp add: sessions_cleanup [OF assms(1)])
  then show ?thesis
    using assms(1) by (simp add: lookup_def)
qed

lemma turn_sessions:
  "sessions (snd (handleIncomingMessage rt io st message)) =
     sessions (snd (handle_try rt io st message))"
  by (simp add: handleIncomingMessage_unfold split: prod.splits sum.splits)

lemma turn_distinct:
  assumes "distinct (map fst (sessions st))"
  shows "distinct (map fst (sessions (snd (handleIncomingMessage rt io st message))))"
proof (cases "reaches_engine rt message")
  case False
  then show ?thesis
    using assms by (simp add: turn_early)
next
  case True
  have "distinct (map fst (sessions (asked rt io st message)))"
    by (simp add: asked_sessions resolve_distinct assms)
  then show ?thesis
    using respond_sessions [of rt io "asked rt io st message" "m_from message"
        "fst (resolve io st (m_from message))" "answer io st message"]
    by (auto simp add: turn_sessions handle_try_unfold [OF True] distinct_update)
qed

text \<open>
  A turn that throws before it fetches the session leaves every session as it was. Any
  other turn leaves the sender's session as the handler resolved it, but for its context,
  and the other sessions as they were.
\<close>

lemma turn_lookup:
  "lookup (snd (handleIncomingMessage rt io st message)) = lookup st
   \<or> (\<exists>c. lookup (snd (handleIncomingMessage rt io st message)) =
        (lookup st)(m_from message \<mapsto>
           (fst (resolve io st (m_from message)))\<lparr>s_context := c\<rparr>))"
proof (cases "reaches_engine rt message")
  case False
  then have "lookup (snd (handleIncomingMessage rt io st message)) = lookup st"
    by (simp add: turn_early lookup_calls_update)
  then show ?thesis ..
next
  case True
  let ?ph = "m_from message"
  let ?sess = "fst (resolve io st ?ph)"
  let ?A = "asked rt io st message"
  let ?R = "respond rt io ?A ?ph ?sess (answer io st message)"
  have eq: "lookup (snd (handleIncomingMessage rt io st message)) = lookup (snd ?R)"
    by (rule ext) (simp add: lookup_def turn_sessions handle_try_unfold [OF True])
  from respond_lookup [of rt io ?A ?ph ?sess "answer io st message"]
  consider "lookup (snd ?R) = lookup ?A"
    | c where "lookup (snd ?R) = (lookup ?A)(?ph \<mapsto> ?sess\<lparr>s_context := c\<rparr>)"
    by blast
  then show ?thesis
  proof cases
    case 1
    then have "lookup (snd ?R) = (lookup st)(?ph \<mapsto> ?sess\<lparr>s_context := s_context ?sess\<rparr>)"
      by (simp add: asked_frame(2))
    with eq show ?thesis by metis
  next
    case 2
    then have "lookup (snd ?R) = (lookup st)(?ph \<mapsto> ?sess\<lparr>s_context := c\<rparr>)"
      by (simp add: asked_frame(2))
    with eq show ?thesis by metis
  qed
qed

lemma step_distinct:
  "distinct (map fst (sessions st)) \<Longrightarrow> distinct (map fst (sessions (step rt st ev)))"
  by (cases ev) (simp_all add: turn_distinct cleanup_distinct)

lemma step_id:
  assumes "distinct (map fst (sessions st))" "lookup st ph = Some s"
    "lookup (step rt st ev) ph = Some s'"
  shows "conversation_id s' = conversation_id s"
proof (cases ev)
  case (Inbound io message)
  from turn_lookup [of rt io st message]
  consider "lookup (step rt st ev) = lookup st"
    | c where "lookup (step rt st ev) =
        (lookup st)(m_from message \<mapsto> (fst (resolve io st (m_from message)))\<lparr>s_context := c\<rparr>)"
    by (auto simp add: Inbound)
  then show ?thesis
  proof cases
    case 1
    with assms(2,3) show ?thesis by simp
  next
    case 2
    with assms(2,3) show ?thesis
      by (cases "ph = m_from message") (auto simp add: resolve_id)
  qed
next
  case (Timer now)
  with assms show ?thesis
    using cleanup_lookup [of st now ph s'] by simp
qed (use assms in \<open>simp_all add: lookup_def\<close>)

lemma run_Nil: "run rt st [] = st"
  by (simp add: run_def)

lemma run_Cons: "run rt st (ev # evs) = run rt (step rt st ev) evs"
  by (simp add: run_def)

lemma run_append: "run rt st (evs @ later) = run rt (run rt st evs) later"
  by (simp add: run_def)

lemma run_distinct:
  "distinct (map fst (sessions st)) \<Longrightarrow> distinct (map fst (sessions (run rt st evs)))"
  by (induction evs arbitrary: st) (simp_all add: run_Nil run_Cons step_distinct)

lemma id_stable:
  assumes "distinct (map fst (sessions st))" "lookup st ph = Some s"
    "\<forall>n \<le> length later. lookup (run rt st (take n later)) ph \<noteq> None"
  shows "map_option conversation_id (lookup (run rt st later) ph) = Some (conversation_id s)"
  using assms
proof (induction later arbitrary: st s)
  case Nil
  then show ?case by (simp add: run_Nil)
next
  case (Cons ev later)
  from Cons.prems(3) have "lookup (run rt st (take 1 (ev # later))) ph \<noteq> None"
    by (metis One_nat_def Suc_leI length_Cons zero_less_Suc)
  then obtain s1 where s1: "lookup (step rt st ev) ph = Some s1"
    by (auto simp add: run_Cons run_Nil)
  have same: "conversation_id s1 = conversation_id s"
    using step_id [OF Cons.prems(1,2) s1] .
  have "\<forall>n \<le> length later. lookup (run rt (step rt st ev) (take n later)) ph \<noteq> None"
  proof (intro allI impI)
    fix n assume "n \<le> length later"
    then have "lookup (run rt st (take (Suc n) (ev # later))) ph \<noteq> None"
      using Cons.prems(3) by (metis Suc_le_mono length_Cons)
    then show "lookup (run rt (step rt st ev) (take n later)) ph \<noteq> None"
      by (simp add: run_Cons)
  qed
  from Cons.IH [OF step_distinct [OF Cons.prems(1)] s1 this] same
  show ?case by (simp add: run_Cons)
qed

text \<open>Every session is stored under its own phone number.\<close>

lemma step_phone:
  assumes "distinct (map fst (sessions st))" "\<forall>ph s. lookup st ph = Some s \<longrightarrow> phone s = ph"
    "lookup (step rt st ev) ph = Some s'"
  shows "phone s' = ph"
proof (cases ev)
  case (Inbound io message)
  from turn_lookup [of rt io st message]
  consider "lookup (step rt st ev) = lookup st"
    | c where "lookup (step rt st ev) =
        (lookup st)(m_from message \<mapsto> (fst (resolve io st (m_from message)))\<lparr>s_context := c\<rparr>)"
    by (auto simp add: Inbound)
  then show ?thesis
  proof cases
    case 1
    with assms(2,3) show ?thesis by simp
  next
    case 2
    with assms(2,3) show ?thesis
      by (cases "ph = m_from message") (auto simp add: resolve_phone split: option.splits)
  qed
next
  case (Timer now)
  with assms show ?thesis
    using cleanup_lookup [of st now ph s'] by simp
qed (use assms in \<open>simp_all add: lookup_def\<close>)

lemma run_phone:
  assumes "distinct (map fst (sessions st))" "\<forall>ph s. lookup st ph = Some s \<longrightarrow> phone s = ph"
  shows "\<forall>ph s. lookup (run rt st evs) ph = Some s \<longrightarrow> phone s = ph"
  using assms
proof (induction evs arbitrary: st)
  case Nil
  then show ?case by (simp add: run_Nil)
next
  case (Cons ev evs)
  have "\<forall>ph s. lookup (step rt st ev) ph = Some s \<longrightarrow> phone s = ph"
    using step_phone [OF Cons.prems] by blast
  from Cons.IH [OF step_distinct [OF Cons.prems(1)] this]
  show ?case by (simp add: run_Cons)
qed

text \<open>
  C7. After every sequence of events from the construction of the bot, the store has one
  entry for a user at most, and every session is stored under its own phone number. As
  long as a session is in the store after each later event, its conversation id is the
  same. A session that a turn creates (the sender had none before the turn and has one
  after it) has the conversation id generated in that turn.
\<close>

theorem one_session_per_user_stable_id:
  "distinct (map fst (sessions (run rt constructor evs)))
   \<and> (\<forall>ph s. lookup (run rt constructor evs) ph = Some s \<longrightarrow> phone s = ph)
   \<and> (\<forall>ph s later.
        lookup (run rt constructor evs) ph = Some s \<longrightarrow>
        (\<forall>n \<le> length later. lookup (run rt constructor (evs @ take n later)) ph \<noteq> None) \<longrightarrow>
        map_option conversation_id (lookup (run rt constructor (evs @ later)) ph)
          = Some (conversation_id s))
   \<and> (\<forall>io message s'.
        lookup (run rt constructor evs) (m_from message) = None \<longrightarrow>
        lookup (run rt constructor (evs @ [Inbound io message])) (m_from message) = Some s' \<longrightarrow>
        conversation_id s' = generateConversationId io)"
proof (intro conjI)
  show d: "distinct (map fst (sessions (run rt constructor evs)))"
    by (rule run_distinct) (simp add: constructor_def)
  show "\<forall>ph s. lookup (run rt constructor evs) ph = Some s \<longrightarrow> phone s = ph"
    by (rule run_phone) (simp_all add: constructor_def lookup_def)
  show "\<forall>ph s later.
        lookup (run rt constructor evs) ph = Some s \<longrightarrow>
        (\<forall>n \<le> length later. lookup (run rt constructor (evs @ take n later)) ph \<noteq> None) \<longrightarrow>
        map_option conversation_id (lookup (run rt constructor (evs @ later)) ph)
          = Some (conversation_id s)"
    using id_stable [OF d] by (simp add: run_append)
  show "\<forall>io message s'.
        lookup (run rt constructor evs) (m_from message) = None \<longrightarrow>
        lookup (run rt constructor (evs @ [Inbound io message])) (m_from message) = Some s' \<longrightarrow>
        conversation_id s' = generateConversationId io"
  proof (intro allI impI)
    fix io and message :: message and s'
    let ?st = "run rt constructor evs"
    assume none: "lookup ?st (m_from message) = None"
      and some: "lookup (run rt constructor (evs @ [Inbound io message])) (m_from message) = Some s'"
    from some have after: "lookup (snd (handleIncomingMessage rt io ?st message)) (m_from message)
        = Some s'"
      by (simp add: run_append run_Cons run_Nil)
    from turn_lookup [of rt io ?st message] after none
    obtain c where "lookup (snd (handleIncomingMessage rt io ?st message)) =
        (lookup ?st)(m_from message \<mapsto> (fst (resolve io ?st (m_from message)))\<lparr>s_context := c\<rparr>)"
      by auto
    with after have "s' = (fst (resolve io ?st (m_from message)))\<lparr>s_context := c\<rparr>"
      by simp
    then show "conversation_id s' = generateConversationId io"
      by (simp add: resolve_id none)
  qed
qed

lemma first_turn_example:
  "run rt_example constructor [Ready, Inbound io_example hola] =
     \<lparr>isReady = True,
      sessions = [(''50688887777'',
                   \<lparr>phone = ''50688887777'', conversation_id = ''conv_1700000000000_k3j9x2m1q'',
                    last_activity = 1700000000000,
                    s_context = JObj [(''step'', JStr ''checkout'')]\<rparr>)],
      calls = [AgentPost (JObj [(''user_id'', JStr ''50688887777''), (''message'', JStr ''Hola''),
                                (''session_id'', JStr ''conv_1700000000000_k3j9x2m1q''),
                                (''context'', JObj [])]),
               ClientSend ''50688887777@c.us'' (JStr ''Claro'')]\<rparr>"
  by (simp add: run_def turn_defs)

lemma second_turn_example:
  "sessions (run rt_example constructor
       [Ready, Inbound io_example hola,
        Inbound (io_example\<lparr>id_suffix := ''1700000060000_zzzzzzzzz'', touched_at := 1700000060000\<rparr>)
          hola]) =
     [(''50688887777'',
       \<lparr>phone = ''50688887777'', conversation_id = ''conv_1700000000000_k3j9x2m1q'',
        last_activity = 1700000060000, s_context = JObj [(''step'', JStr ''checkout'')]\<rparr>)]"
  by (simp add: run_def turn_defs)

theorem one_session_per_user_stable_id_witness:
  "lookup (run rt_example constructor [Ready, Inbound io_example hola]) ''50688887777''
     = Some \<lparr>phone = ''50688887777'', conversation_id = ''conv_1700000000000_k3j9x2m1q'',
             last_activity = 1700000000000, s_context = JObj [(''step'', JStr ''checkout'')]\<rparr>
   \<and> lookup (run rt_example constructor
        ([Ready, Inbound io_example hola] @
         [Inbound (io_example\<lparr>id_suffix := ''1700000060000_zzzzzzzzz'',
                               touched_at := 1700000060000\<rparr>) hola])) ''50688887777'' \<noteq> None
   \<and> map_option conversation_id
        (lookup (run rt_example constructor
           ([Ready, Inbound io_example hola] @
            [Inbound (io_example\<lparr>id_suffix := ''1700000060000_zzzzzzzzz'',
                                  touched_at := 1700000060000\<rparr>) hola])) ''50688887777'')
       = Some ''conv_1700000000000_k3j9x2m1q''
   \<and> lookup (run rt_example constructor [Ready]) (m_from hola) = None
   \<and> lookup (run rt_example constructor ([Ready] @ [Inbound io_example hola])) (m_from hola)
       = Some \<lparr>phone = ''50688887777'', conversation_id = ''conv_1700000000000_k3j9x2m1q'',
               last_activity = 1700000000000, s_context = JObj [(''step'', JStr ''checkout'')]\<rparr>
   \<and> generateConversationId io_example = ''conv_1700000000000_k3j9x2m1q''
   \<and> phone \<lparr>phone = ''50688887777'', conversation_id = ''conv_1700000000000_k3j9x2m1q'',
              last_activity = 1700000000000, s_context = JObj [(''step'', JStr ''checkout'')]\<rparr>
       = ''50688887777''"
proof -
  let ?evs = "[Ready, Inbound io_example hola]"
  let ?next = "Inbound (io_example\<lparr>id_suffix := ''1700000060000_zzzzzzzzz'',
                                   touched_at := 1700000060000\<rparr>) hola"
  let ?s = "\<lparr>phone = ''50688887777'', conversation_id = ''conv_1700000000000_k3j9x2m1q'',
             last_activity = 1700000000000, s_context = JObj [(''step'', JStr ''checkout'')]\<rparr>"
  have a: "lookup (run rt_example constructor ?evs) ''50688887777'' = Some ?s"
    by (simp add: lookup_def first_turn_example)
  have b: "lookup (run rt_example constructor (?evs @ [?next])) ''50688887777'' \<noteq> None"
    by (simp add: lookup_def second_turn_example)
  have c: "\<forall>n \<le> length [?next].
      lookup (run rt_example constructor (?evs @ take n [?next])) ''50688887777'' \<noteq> None"
  proof (intro allI impI)
    fix n :: nat assume "n \<le> length [?next]"
    then have "n = 0 \<or> n = 1" by auto
    then show "lookup (run rt_example constructor (?evs @ take n [?next])) ''50688887777'' \<noteq> None"
      using a b by auto
  qed
  have d: "lookup (run rt_example constructor [Ready]) (m_from hola) = None"
    by (simp add: lookup_def run_def constructor_def)
  have e: "lookup (run rt_example constructor ([Ready] @ [Inbound io_example hola])) (m_from hola)
      = Some ?s"
    using a by (simp add: m_from_hola)
  from one_session_per_user_stable_id [of rt_example ?evs]
  have "map_option conversation_id
      (lookup (run rt_example constructor (?evs @ [?next])) ''50688887777'')
      = Some (conversation_id ?s)"
    using a c by blast
  moreover from one_session_per_user_stable_id [of rt_example "[Ready]"]
  have "conversation_id ?s = generateConversationId io_example"
    using d e by blast
  ultimately show ?thesis
    using a b d e by simp
qed

end
